theory Spec2Isabelle
  imports Complex_Main
begin

section \<open>JavaScript values and strings\<close>

text \<open>
  The values that the body parser (\<open>express.urlencoded({extended: true})\<close>) and the query
  parser put into \<open>req.body\<close> and \<open>req.query\<close>: a missing field is \<open>undefined\<close>, a plain
  field is a string, bracketed or repeated keys give arrays and objects. \<open>JNum\<close> is only
  produced by the handlers themselves (the numbers 20 and 1 written into \<open>limit\<close>).
  A string is a list of characters, one for each UTF-16 code unit of the JavaScript
  string; \<open>length\<close> is JavaScript's \<open>.length\<close>.
\<close>

datatype jsval =
    Undefined
  | JStr string
  | JNum int
  | JArr "jsval list"
  | JObj "(string \<times> jsval) list"

text \<open>JavaScript truthiness, as used by \<open>!v\<close>, \<open>v && ...\<close> and \<open>v ? a : b\<close>.\<close>

fun truthy :: "jsval \<Rightarrow> bool" where
  "truthy Undefined = False"
| "truthy (JStr s) = (s \<noteq> [])"
| "truthy (JNum n) = (n \<noteq> 0)"
| "truthy (JArr xs) = True"
| "truthy (JObj kvs) = True"

text \<open>\<open>typeof v === "string"\<close>.\<close>

fun isString :: "jsval \<Rightarrow> bool" where
  "isString (JStr s) = True"
| "isString v = False"

text \<open>Decimal rendering of a natural number (\<open>'' + n\<close>).\<close>

definition digitChar :: "nat \<Rightarrow> char" where
  "digitChar n = ''0123456789'' ! n"

fun decimal :: "nat \<Rightarrow> string" where
  "decimal n = (if n < 10 then [digitChar n] else decimal (n div 10) @ [digitChar (n mod 10)])"

declare decimal.simps [simp del]

text \<open>\<open>s.charAt(0)\<close> is the first character as a string, or the empty string; \<open>s.slice(1)\<close>
  is the rest.\<close>

definition charAt0 :: "string \<Rightarrow> string" where
  "charAt0 s = take 1 s"

definition slice1 :: "string \<Rightarrow> string" where
  "slice1 s = drop 1 s"

section \<open>Errors, the response object and the error middleware\<close>

text \<open>\<open>generateError\<close> of index.js: an \<open>Error\<close> with a message and a \<open>statusCode\<close>.\<close>

record error =
  message :: string
  statusCode :: "nat option"

definition generateError :: "string \<Rightarrow> nat \<Rightarrow> error" where
  "generateError msg code = \<lparr>message = msg, statusCode = Some code\<rparr>"

text \<open>The documents of the two collections. A \<open>Date\<close> is held by its calendar fields in
  the server's time zone (taken to have a fixed offset), with the milliseconds since
  local midnight.\<close>

record jsdate =
  year :: int
  month :: nat
  day :: nat
  msec :: nat

record user =
  u_id :: string
  username :: string

record exercise =
  e_id :: string
  e_userId :: string
  e_duration :: rat
  e_description :: string
  e_date :: jsdate

text \<open>The JSON bodies the handlers send.\<close>

record exerciseJson =
  x_id :: string
  x_userId :: string
  x_duration :: rat
  x_description :: string
  x_date :: string

record logEntry =
  l_description :: string
  l_duration :: rat
  l_date :: string

record logJson =
  j_username :: string
  j_count :: nat
  j_id :: string
  j_log :: "logEntry list"

datatype payload =
    ErrorBody nat string
  | UserBody user
  | UsersBody "user list"
  | ExerciseBody exerciseJson
  | LogBody logJson

text \<open>
  What a handler does to the outside during one request, in order: \<open>Next e\<close> is a call
  \<open>next(e)\<close>, \<open>Json c p\<close> a call \<open>res.status(c).json(p)\<close>. The response object is the list
  of calls made so far. The first \<open>Json\<close> call is what the client receives; once it has been
  made the headers are sent, and a further \<open>res.status(c).json(p)\<close> throws
  (\<open>ERR_HTTP_HEADERS_SENT\<close>) and sends nothing.
\<close>

datatype event = Next error | Json nat payload

type_synonym res = "event list"

fun isJson :: "event \<Rightarrow> bool" where
  "isJson (Json c p) = True"
| "isJson (Next e) = False"

fun isNext :: "event \<Rightarrow> bool" where
  "isNext (Next e) = True"
| "isNext (Json c p) = False"

definition headersSent :: "res \<Rightarrow> bool" where
  "headersSent r = list_ex isJson r"

text \<open>\<open>res.status(c).json(p)\<close>: the call is recorded; the flag says whether it threw.\<close>

definition resJson :: "nat \<Rightarrow> payload \<Rightarrow> res \<Rightarrow> res \<times> bool" where
  "resJson c p r = (r @ [Json c p], headersSent r)"

text \<open>The response the client receives: the first \<open>Json\<close> call, if any.\<close>

fun response :: "res \<Rightarrow> (nat \<times> payload) option" where
  "response [] = None"
| "response (Json c p # r) = Some (c, p)"
| "response (Next e # r) = response r"

text \<open>The calls \<open>res.status(c).json(p)\<close> that threw and sent nothing: every one after the
  first.\<close>

definition refusedCalls :: "res \<Rightarrow> event list" where
  "refusedCalls r = filter isJson (tl (dropWhile (\<lambda>e. \<not> isJson e) r))"

text \<open>
  \<open>ErrorHandler\<close> (middleware/ErrorHandler): \<open>err.statusCode || 500\<close>,
  \<open>err.message || "Something went wrong"\<close>, then \<open>res.status(status).json(...)\<close>. When that
  call throws because a response is already out, the framework swallows the exception,
  so nothing further happens.
\<close>

definition ErrorHandler :: "error \<Rightarrow> res \<Rightarrow> res" where
  "ErrorHandler err r =
     (let status = (case statusCode err of None \<Rightarrow> 500 | Some c \<Rightarrow> if c = 0 then 500 else c);
          msg = (if message err = [] then ''Something went wrong'' else message err)
      in fst (resJson status (ErrorBody status msg) r))"

text \<open>
  \<open>next(err)\<close> in a route handler. The router keeps one position in its stack for each
  request. The first \<open>next(err)\<close> moves on from the route to \<open>ErrorHandler\<close>, the only
  error-handling middleware registered, which runs synchronously. A later \<open>next(err)\<close> of
  the same request starts behind \<open>ErrorHandler\<close>, where nothing is registered: the error
  ends in the framework's final handler, which makes no call of this program and, with
  the headers already sent, sends nothing.
\<close>

definition next_err :: "error \<Rightarrow> res \<Rightarrow> res" where
  "next_err err r =
     (if list_ex isNext r then r @ [Next err] else ErrorHandler err (r @ [Next err]))"

section \<open>The library parameters\<close>

text \<open>
  Functions of the third-party libraries and of the language runtime whose results the
  handlers only pass on or branch on. They are parameters of the model:
  \<^item> \<open>toUpperCase\<close>, \<open>toLowerCase\<close>: \<open>String.prototype.toUpperCase\<close> and \<open>toLowerCase\<close>,
    the runtime's Unicode case mappings of a string (they can change its length).
  \<^item> \<open>castObjectId\<close>: the ODM's cast of a string to an ObjectId, as its canonical text;
    \<open>None\<close> when the string is not an identifier. \<open>mongoose.Types.ObjectId.isValid\<close>
    holds exactly when the cast succeeds.
  \<^item> \<open>looseEqZero\<close>: the JavaScript comparison \<open>v == 0\<close>.
  \<^item> \<open>momentParse\<close>: \<open>moment(v)\<close>, the lenient parse; \<open>None\<close> is an invalid moment.
  \<^item> \<open>castDate\<close>: the ODM's cast of a string in a date filter; \<open>None\<close> is a cast error.
  \<^item> \<open>castLimit\<close>: the number the ODM and the driver read from a non-numeric argument
    of \<open>Query.limit\<close>; \<open>None\<close> is an error.
  \<^item> \<open>castNumber\<close>, \<open>castString\<close>: the ODM's casts for a Number and a String path.
\<close>

record lib =
  toUpperCase :: "string \<Rightarrow> string"
  toLowerCase :: "string \<Rightarrow> string"
  castObjectId :: "string \<Rightarrow> string option"
  looseEqZero :: "jsval \<Rightarrow> bool"
  momentParse :: "jsval \<Rightarrow> jsdate option"
  castDate :: "string \<Rightarrow> jsdate option"
  castLimit :: "jsval \<Rightarrow> int option"
  castNumber :: "jsval \<Rightarrow> rat option"
  castString :: "jsval \<Rightarrow> string option"

definition isValid :: "lib \<Rightarrow> string \<Rightarrow> bool" where
  "isValid L s = (castObjectId L s \<noteq> None)"

section \<open>The store\<close>

text \<open>
  An error thrown by the ODM or the driver, with its \<open>code\<close> if it has one (11000 is the
  server's duplicate-key error). \<open>fault\<close> is the error every round trip to the server
  fails with while the server cannot serve requests.
\<close>

datatype dberror = DbError "nat option"

record db =
  users :: "user list"
  exercises :: "exercise list"
  fault :: "dberror option"

text \<open>The setter of \<open>userSchema.username\<close>.\<close>

definition setUsername :: "lib \<Rightarrow> string \<Rightarrow> string" where
  "setUsername L v = toUpperCase L (charAt0 v) @ toLowerCase L (slice1 v)"

text \<open>
  \<open>User.create({username})\<close> under \<open>userSchema\<close>: the setter runs, \<open>required: true\<close>
  rejects the empty string (a validation error, without a code), and the unique index
  makes the server refuse a second document with the same username (code 11000). \<open>oid\<close>
  is the identifier generated for the new document. A value that is not a string never
  gets this far in the handler; the setter would throw on it.
\<close>

definition User_create :: "lib \<Rightarrow> db \<Rightarrow> string \<Rightarrow> jsval \<Rightarrow> dberror + (user \<times> db)" where
  "User_create L d oid v =
     (case v of
        JStr s \<Rightarrow>
          (let name = setUsername L s in
           if name = [] then Inl (DbError None)
           else case fault d of
             Some e \<Rightarrow> Inl e
           | None \<Rightarrow>
               if name \<in> set (map username (users d)) then Inl (DbError (Some 11000))
               else let u = \<lparr>u_id = oid, username = name\<rparr>
                    in Inr (u, d\<lparr>users := users d @ [u]\<rparr>))
      | _ \<Rightarrow> Inl (DbError None))"

text \<open>\<open>User.findById(id)\<close>: a cast error when the id is not an identifier, otherwise the
  document with that identifier or \<open>null\<close>.\<close>

definition User_findById :: "lib \<Rightarrow> db \<Rightarrow> string \<Rightarrow> dberror + user option" where
  "User_findById L d i =
     (case castObjectId L i of
        None \<Rightarrow> Inl (DbError None)
      | Some k \<Rightarrow>
          (case fault d of
             Some e \<Rightarrow> Inl e
           | None \<Rightarrow> Inr (find (\<lambda>u. u_id u = k) (users d))))"

text \<open>\<open>User.find()\<close>: every user document.\<close>

definition User_find :: "db \<Rightarrow> dberror + user list" where
  "User_find d = (case fault d of Some e \<Rightarrow> Inl e | None \<Rightarrow> Inr (users d))"

section \<open>GET /api/users\<close>

definition getUsers :: "db \<Rightarrow> res" where
  "getUsers d =
     (case User_find d of
        Inr us \<Rightarrow>
          (case resJson 200 (UsersBody us) [] of
             (r, threw) \<Rightarrow>
               if threw then
                 next_err (generateError
                   ''Error retrieving users, could not connect to MongoDB.'' 500) r
               else r)
      | Inl e \<Rightarrow>
          next_err (generateError
            ''Error retrieving users, could not connect to MongoDB.'' 500) [])"

section \<open>POST /api/users\<close>

text \<open>The guard \<open>!username || typeof username !== "string" || username.length < 3\<close>.\<close>

definition strLength :: "jsval \<Rightarrow> nat" where
  "strLength v = (case v of JStr s \<Rightarrow> length s | _ \<Rightarrow> 0)"

definition invalidUsername :: "jsval \<Rightarrow> bool" where
  "invalidUsername v = (\<not> truthy v \<or> \<not> isString v \<or> strLength v < 3)"

definition postUsers :: "lib \<Rightarrow> string \<Rightarrow> db \<Rightarrow> jsval \<Rightarrow> res \<times> db" where
  "postUsers L oid d uname =
     (if invalidUsername uname then
        (next_err (generateError
           ''Invalid username. It must be a string with at least 3 characters.'' 400) [], d)
      else case User_create L d oid uname of
        Inr (u, d') \<Rightarrow>
          (case resJson 201 (UserBody u) [] of
             (r, threw) \<Rightarrow>
               if threw then (next_err (generateError ''Server error'' 500) r, d')
               else (r, d'))
      | Inl (DbError code) \<Rightarrow>
          (next_err (generateError
             (if code = Some 11000 then ''User already exists'' else ''Server error'')
             (if code = Some 11000 then 400 else 500)) [], d))"

section \<open>Dates: strict validation and rendering\<close>

text \<open>\<open>'' + v\<close>, the string moment makes of its input before parsing it with a format:
  an array is its elements joined by commas (\<open>undefined\<close> elements are empty).\<close>

fun joinComma :: "string list \<Rightarrow> string" where
  "joinComma [] = []"
| "joinComma [s] = s"
| "joinComma (s # t # ss) = s @ '','' @ joinComma (t # ss)"

fun jsToString :: "jsval \<Rightarrow> string" where
  "jsToString Undefined = ''undefined''"
| "jsToString (JStr s) = s"
| "jsToString (JNum n) = (if n < 0 then ''-'' else []) @ decimal (nat \<bar>n\<bar>)"
| "jsToString (JArr xs) =
     joinComma (map (\<lambda>x. case x of Undefined \<Rightarrow> [] | _ \<Rightarrow> jsToString x) xs)"
| "jsToString (JObj kvs) = ''[object Object]''"

definition isDigit :: "char \<Rightarrow> bool" where
  "isDigit c = (c \<in> set ''0123456789'')"

definition digitVal :: "char \<Rightarrow> nat" where
  "digitVal c =
     (case map_of (zip ''0123456789'' [0, 1, 2, 3, 4, 5, 6, 7, 8, 9]) c of
        Some n \<Rightarrow> n | None \<Rightarrow> 0)"

text \<open>moment's \<open>toInt\<close> on a run of digits.\<close>

definition toInt :: "string \<Rightarrow> nat" where
  "toInt s = foldl (\<lambda>a c. 10 * a + digitVal c) 0 s"

text \<open>
  \<open>moment(s, "YYYY-MM-DD", true)\<close>. In strict mode the tokens \<open>YYYY\<close>, \<open>MM\<close>, \<open>DD\<close> match
  exactly four, two and two digits (\<open>\d\<close> is an ASCII digit), the separators match
  themselves, and the parse is only valid when every token matched and no character of
  the input is left over: the input is ten characters, digits around two hyphens.
\<close>

fun matchesYMD :: "string \<Rightarrow> bool" where
  "matchesYMD [y1, y2, y3, y4, h1, m1, m2, h2, d1, d2] =
     (isDigit y1 \<and> isDigit y2 \<and> isDigit y3 \<and> isDigit y4 \<and> h1 = CHR ''-'' \<and>
      isDigit m1 \<and> isDigit m2 \<and> h2 = CHR ''-'' \<and> isDigit d1 \<and> isDigit d2)"
| "matchesYMD s = False"

text \<open>moment's \<open>isLeapYear\<close> and \<open>daysInMonth(year, month)\<close>, the month counted from 0.\<close>

definition isLeapYear :: "int \<Rightarrow> bool" where
  "isLeapYear y = ((y mod 4 = 0 \<and> y mod 100 \<noteq> 0) \<or> y mod 400 = 0)"

definition daysInMonth :: "int \<Rightarrow> int \<Rightarrow> int" where
  "daysInMonth y m =
     (let modMonth = m mod 12;
          y' = y + (m - modMonth) div 12
      in if modMonth = 1 then (if isLeapYear y' then 29 else 28)
         else 31 - ((modMonth mod 7) mod 2))"

text \<open>moment's \<open>checkOverflow\<close> on the parsed array \<open>[YEAR, MONTH, DATE]\<close>: the month
  (from 0) must be within 0..11 and the day within 1..\<open>daysInMonth\<close>.\<close>

definition overflows :: "int \<Rightarrow> int \<Rightarrow> int \<Rightarrow> bool" where
  "overflows y m d = (m < 0 \<or> 11 < m \<or> d < 1 \<or> daysInMonth y m < d)"

definition momentStrictYMD :: "string \<Rightarrow> jsdate option" where
  "momentStrictYMD s =
     (if matchesYMD s then
        (let y = toInt (take 4 s); m = toInt (take 2 (drop 5 s)); d = toInt (take 2 (drop 8 s))
         in if overflows (int y) (int m - 1) (int d) then None
            else Some \<lparr>year = int y, month = m, day = d, msec = 0\<rparr>)
      else None)"

text \<open>\<open>isValidFormat\<close> of the exercise handler: \<open>moment(date, "YYYY-MM-DD", true).isValid()\<close>.\<close>

definition isValidFormat :: "jsval \<Rightarrow> bool" where
  "isValidFormat v = (momentStrictYMD (jsToString v) \<noteq> None)"

text \<open>moment's \<open>zeroFill(number, targetLength)\<close>, which renders the tokens \<open>YYYY\<close>, \<open>MM\<close>
  and \<open>DD\<close>.\<close>

definition zeroFill :: "int \<Rightarrow> nat \<Rightarrow> string" where
  "zeroFill n targetLength =
     (let absNumber = decimal (nat \<bar>n\<bar>);
          zerosToFill = targetLength - length absNumber
      in (if 0 \<le> n then [] else ''-'') @ replicate zerosToFill (CHR ''0'') @ absNumber)"

text \<open>\<open>formatDate\<close> of the logs handler, \<open>moment(date).format("YYYY-MM-DD")\<close>, on the moment
  made of its argument: an invalid moment renders as \<open>Invalid date\<close>.\<close>

definition formatDate :: "jsdate option \<Rightarrow> string" where
  "formatDate m =
     (case m of
        None \<Rightarrow> ''Invalid date''
      | Some d \<Rightarrow>
          zeroFill (year d) 4 @ ''-'' @ zeroFill (int (month d)) 2 @ ''-'' @
          zeroFill (int (day d)) 2)"

text \<open>The order of two dates in time.\<close>

definition dateLe :: "jsdate \<Rightarrow> jsdate \<Rightarrow> bool" where
  "dateLe a b =
     (year a < year b \<or> (year a = year b \<and>
       (month a < month b \<or> (month a = month b \<and>
         (day a < day b \<or> (day a = day b \<and> msec a \<le> msec b))))))"

section \<open>The exercise collection\<close>

text \<open>
  Modelled from the spec: the Exercise schema of \<open>db_schemas\<close> is not among the sources.
  The spec gives an Exercise a \<open>userId\<close> referring to a User's id, a required string
  \<open>description\<close>, a required numeric \<open>duration\<close> and a calendar \<open>date\<close>. \<open>Exercise.create\<close>
  casts each field to its type and fails with a validation error when a cast fails;
  \<open>dt\<close> is the date the handler passes, already read as a date (\<open>None\<close>: not a date).
\<close>

definition Exercise_create ::
  "lib \<Rightarrow> db \<Rightarrow> string \<Rightarrow> string \<Rightarrow> jsval \<Rightarrow> jsval \<Rightarrow> jsdate option \<Rightarrow> dberror + (exercise \<times> db)" where
  "Exercise_create L d oid uid duration description dt =
     (case (castObjectId L uid, castNumber L duration, castString L description, dt) of
        (Some k, Some n, Some s, Some t) \<Rightarrow>
          (case fault d of
             Some e \<Rightarrow> Inl e
           | None \<Rightarrow>
               let x = \<lparr>e_id = oid, e_userId = k, e_duration = n, e_description = s, e_date = t\<rparr>
               in Inr (x, d\<lparr>exercises := exercises d @ [x]\<rparr>))
      | _ \<Rightarrow> Inl (DbError None))"

text \<open>The query filter the logs handler builds: \<open>{userId, date: {$gte, $lte}}\<close>.\<close>

record queryFilter =
  f_userId :: string
  f_gte :: "string option"
  f_lte :: "string option"

definition castBound :: "lib \<Rightarrow> string option \<Rightarrow> jsdate option option" where
  "castBound L b = (case b of None \<Rightarrow> Some None | Some s \<Rightarrow> map_option Some (castDate L s))"

definition matchesFilter :: "string \<Rightarrow> jsdate option \<Rightarrow> jsdate option \<Rightarrow> exercise \<Rightarrow> bool" where
  "matchesFilter k lo hi x =
     (e_userId x = k \<and>
      (case lo of None \<Rightarrow> True | Some a \<Rightarrow> dateLe a (e_date x)) \<and>
      (case hi of None \<Rightarrow> True | Some b \<Rightarrow> dateLe (e_date x) b))"

text \<open>The argument of \<open>Query.limit\<close> as a number: a number is taken as it is.\<close>

definition limitNumber :: "lib \<Rightarrow> jsval \<Rightarrow> int option" where
  "limitNumber L v = (case v of JNum n \<Rightarrow> Some n | _ \<Rightarrow> castLimit L v)"

text \<open>The server's reading of a limit: 0 is no limit, a negative number limits to its
  absolute value.\<close>

definition applyLimit :: "int \<Rightarrow> 'a list \<Rightarrow> 'a list" where
  "applyLimit n xs = (if n = 0 then xs else take (nat \<bar>n\<bar>) xs)"

text \<open>\<open>Exercise.find(filter).limit(limit)\<close>: the matching documents in the collection's
  order, cut at the limit; an error when a cast fails or the server cannot answer.\<close>

definition Exercise_find :: "lib \<Rightarrow> db \<Rightarrow> queryFilter \<Rightarrow> jsval \<Rightarrow> dberror + exercise list" where
  "Exercise_find L d flt lmt =
     (case (castObjectId L (f_userId flt), castBound L (f_gte flt), castBound L (f_lte flt),
            limitNumber L lmt) of
        (Some k, Some lo, Some hi, Some n) \<Rightarrow>
          (case fault d of
             Some e \<Rightarrow> Inl e
           | None \<Rightarrow> Inr (applyLimit n (filter (matchesFilter k lo hi) (exercises d))))
      | _ \<Rightarrow> Inl (DbError None))"

section \<open>POST /api/users/:_id/exercises\<close>

text \<open>\<open>moment().local().format()\<close> is the clock's reading as text, to the second, with the
  local offset; the schema's Date cast reads the same instant back.\<close>

definition toSecond :: "jsdate \<Rightarrow> jsdate" where
  "toSecond t = t\<lparr>msec := msec t - msec t mod 1000\<rparr>"

definition exerciseBody :: "exercise \<Rightarrow> payload" where
  "exerciseBody x =
     ExerciseBody \<lparr>x_id = e_id x, x_userId = e_userId x, x_duration = e_duration x,
       x_description = e_description x, x_date = formatDate (Some (e_date x))\<rparr>"

text \<open>The handler; \<open>oid\<close> is the identifier generated for the new document and \<open>now\<close>
  the clock's reading when the request is handled.\<close>

definition postExercise ::
  "lib \<Rightarrow> string \<Rightarrow> jsdate \<Rightarrow> db \<Rightarrow> string \<Rightarrow> jsval \<Rightarrow> jsval \<Rightarrow> jsval \<Rightarrow> res \<times> db" where
  "postExercise L oid now d userId duration description date =
     (if \<not> isValid L userId then
        (next_err (generateError
           ''Invalid or missing ID. The ID must be exactly 24 characters long.'' 400) [], d)
      else case User_findById L d userId of
        Inl e \<Rightarrow> (next_err (generateError ''Server error'' 500) [], d)
      | Inr None \<Rightarrow>
          (next_err (generateError
             ''User not found. Please check the ID and try again.'' 404) [], d)
      | Inr (Some u) \<Rightarrow>
          if \<not> truthy description \<or> \<not> truthy duration then
            (next_err (generateError
               ''Description and duration are required. Please provide them and try again.''
               400) [], d)
          else if truthy date \<and> \<not> isValidFormat date then
            (next_err (generateError
               ''Invalid date. Please use the yyyy-mm-dd format and ensure date is a valid calendar date.''
               400) [], d)
          else
            (case Exercise_create L d oid userId duration description
                    (if truthy date then momentParse L date else Some (toSecond now)) of
               Inl e \<Rightarrow> (next_err (generateError ''Server error'' 500) [], d)
             | Inr (x, d') \<Rightarrow>
                 (case resJson 200 (exerciseBody x) [] of
                    (r, threw) \<Rightarrow>
                      if threw then (next_err (generateError ''Server error'' 500) r, d')
                      else (r, d'))))"

section \<open>GET /api/users/:_id/logs\<close>

text \<open>\<open>!limit ? (limit = 20) : limit == 0 ? (limit = 1) : limit\<close>.\<close>

definition effectiveLimit :: "lib \<Rightarrow> jsval \<Rightarrow> jsval" where
  "effectiveLimit L limit =
     (if \<not> truthy limit then JNum 20 else if looseEqZero L limit then JNum 1 else limit)"

definition logEntryOf :: "exercise \<Rightarrow> logEntry" where
  "logEntryOf x =
     \<lparr>l_description = e_description x, l_duration = e_duration x,
      l_date = formatDate (Some (e_date x))\<rparr>"

definition buildFilter :: "lib \<Rightarrow> string \<Rightarrow> jsval \<Rightarrow> jsval \<Rightarrow> queryFilter" where
  "buildFilter L userId from to =
     \<lparr>f_userId = userId,
      f_gte = (if truthy from then Some (formatDate (momentParse L from)) else None),
      f_lte = (if truthy to then Some (formatDate (momentParse L to)) else None)\<rparr>"

definition getLogs :: "lib \<Rightarrow> db \<Rightarrow> string \<Rightarrow> jsval \<Rightarrow> jsval \<Rightarrow> jsval \<Rightarrow> res" where
  "getLogs L d userId from to limit =
     (case User_findById L d userId of
        Inl e \<Rightarrow> next_err (generateError ''Error retrieving exercises'' 500) []
      | Inr None \<Rightarrow>
          next_err (generateError ''User not found. Please check the ID and try again.'' 404) []
      | Inr (Some u) \<Rightarrow>
          (case Exercise_find L d (buildFilter L userId from to) (effectiveLimit L limit) of
             Inl e \<Rightarrow> next_err (generateError ''Error retrieving exercises'' 500) []
           | Inr xs \<Rightarrow>
               (let r1 =
                      (if xs = [] then
                         (if truthy from \<or> truthy to then
                            next_err (generateError
                              ''No exercises found for the specified dates. Please adjust the date range and try again.''
                              404) []
                          else
                            next_err (generateError
                              ''Exercises not found for this user. Please check the exercises of another user.''
                              404) [])
                       else []);
                    log = map logEntryOf xs
                in case resJson 200
                       (LogBody \<lparr>j_username = username u, j_count = length log,
                          j_id = userId, j_log = log\<rparr>) r1 of
                     (r2, threw) \<Rightarrow>
                       if threw then
                         next_err (generateError ''Error retrieving exercises'' 500) r2
                       else r2)))"

section \<open>The fallback route\<close>

text \<open>\<open>app.all("*")\<close>, on \<open>req.originalUrl\<close>: the request target as the client sent it, the
  path followed by \<open>?\<close> and the query string when there is one.\<close>

definition fallback :: "string \<Rightarrow> res" where
  "fallback originalUrl =
     (if originalUrl = ''/api/users//exercises'' then
        next_err (generateError
          ''Invalid ID format. Ensure the ID is exactly 24 characters long and corresponds to an existing user.''
          400) []
      else
        next_err (generateError
          (''The requested path '' @ [CHR 0x27] @ originalUrl @ [CHR 0x27] @
           '' was not found on this server.'') 404) [])"

text \<open>\<open>req.path\<close>: the request target without its query string.\<close>

definition pathOf :: "string \<Rightarrow> string" where
  "pathOf url = takeWhile (\<lambda>c. c \<noteq> CHR ''?'') url"

section \<open>Requests in sequence\<close>

text \<open>A routed request with what the handler reads from the outside (a generated
  identifier, the clock), and the store after a series of requests.\<close>

datatype request =
    GetUsers
  | PostUsers string jsval
  | PostExercise string jsdate string jsval jsval jsval
  | GetLogs string jsval jsval jsval
  | Fallback string

fun serve :: "lib \<Rightarrow> db \<Rightarrow> request \<Rightarrow> res \<times> db" where
  "serve L d GetUsers = (getUsers d, d)"
| "serve L d (PostUsers oid uname) = postUsers L oid d uname"
| "serve L d (PostExercise oid now userId duration description date) =
     postExercise L oid now d userId duration description date"
| "serve L d (GetLogs userId from to limit) = (getLogs L d userId from to limit, d)"
| "serve L d (Fallback originalUrl) = (fallback originalUrl, d)"

definition serveAll :: "lib \<Rightarrow> db \<Rightarrow> request list \<Rightarrow> db" where
  "serveAll L d qs = foldl (\<lambda>s q. snd (serve L s q)) d qs"

section \<open>A reference instance of the library parameters\<close>

text \<open>
  A concrete instance, for the closed examples: a server in the UTC zone, strings of
  ASCII characters, identifiers of 24 hexadecimal characters (the canonical text is in
  lower case), whole numbers written in decimal digits and dates written \<open>YYYY-MM-DD\<close>.
  On such inputs it agrees with the libraries.
\<close>

text \<open>Case mapping of the letters \<open>a\<close>..\<open>z\<close> and \<open>A\<close>..\<open>Z\<close>, which is what
  \<open>toUpperCase\<close> and \<open>toLowerCase\<close> do to a string of ASCII characters.\<close>

definition lowerLetters :: string where
  "lowerLetters = ''abcdefghijklmnopqrstuvwxyz''"

definition upperLetters :: string where
  "upperLetters = ''ABCDEFGHIJKLMNOPQRSTUVWXYZ''"

definition upperChar :: "char \<Rightarrow> char" where
  "upperChar c = (case map_of (zip lowerLetters upperLetters) c of Some C \<Rightarrow> C | None \<Rightarrow> c)"

definition lowerChar :: "char \<Rightarrow> char" where
  "lowerChar c = (case map_of (zip upperLetters lowerLetters) c of Some C \<Rightarrow> C | None \<Rightarrow> c)"

definition asciiUpperCase :: "string \<Rightarrow> string" where
  "asciiUpperCase s = map upperChar s"

definition asciiLowerCase :: "string \<Rightarrow> string" where
  "asciiLowerCase s = map lowerChar s"

definition hexDigits :: string where
  "hexDigits = ''0123456789abcdefABCDEF''"

definition allDigits :: "string \<Rightarrow> bool" where
  "allDigits s = (s \<noteq> [] \<and> list_all isDigit s)"

text \<open>\<open>Number(s)\<close> for decimal digits with an optional minus sign, and for the empty
  string, which is 0.\<close>

definition signedDecimal :: "string \<Rightarrow> int option" where
  "signedDecimal s =
     (case s of
        [] \<Rightarrow> Some 0
      | c # ds \<Rightarrow>
          if c = CHR ''-'' then (if allDigits ds then Some (- int (toInt ds)) else None)
          else if allDigits s then Some (int (toInt s)) else None)"

definition refLib :: lib where
  "refLib =
     \<lparr>toUpperCase = asciiUpperCase,
      toLowerCase = asciiLowerCase,
      castObjectId = (\<lambda>s. if length s = 24 \<and> list_all (\<lambda>c. c \<in> set hexDigits) s
                           then Some (asciiLowerCase s) else None),
      looseEqZero = (\<lambda>v. case v of JStr s \<Rightarrow> signedDecimal s = Some 0
                                   | JNum n \<Rightarrow> n = 0 | _ \<Rightarrow> False),
      momentParse = (\<lambda>v. case v of JStr s \<Rightarrow> momentStrictYMD s | _ \<Rightarrow> None),
      castDate = momentStrictYMD,
      castLimit = (\<lambda>v. case v of JStr s \<Rightarrow> signedDecimal s | _ \<Rightarrow> None),
      castNumber = (\<lambda>v. case v of JStr s \<Rightarrow> if s = [] then None
                                             else map_option of_int (signedDecimal s)
                                  | _ \<Rightarrow> None),
      castString = (\<lambda>v. case v of JStr s \<Rightarrow> Some s | _ \<Rightarrow> None)\<rparr>"

definition emptyDb :: db where
  "emptyDb = \<lparr>users = [], exercises = [], fault = None\<rparr>"

text \<open>A store and a clock reading for the closed examples: Amy has two exercises, Bob
  has none.\<close>

definition amyId :: string where
  "amyId = ''507f1f77bcf86cd799439011''"

definition bobId :: string where
  "bobId = ''507f1f77bcf86cd799439012''"

definition exampleDb :: db where
  "exampleDb =
     \<lparr>users = [\<lparr>u_id = amyId, username = ''Amy''\<rparr>, \<lparr>u_id = bobId, username = ''Bob''\<rparr>],
      exercises =
        [\<lparr>e_id = ''65f0a1b2c3d4e5f6a7b8c9d0'', e_userId = amyId, e_duration = 30,
          e_description = ''run'', e_date = \<lparr>year = 2024, month = 1, day = 15, msec = 0\<rparr>\<rparr>,
         \<lparr>e_id = ''65f0a1b2c3d4e5f6a7b8c9d1'', e_userId = amyId, e_duration = 45,
          e_description = ''swim'', e_date = \<lparr>year = 2024, month = 3, day = 2, msec = 0\<rparr>\<rparr>],
      fault = None\<rparr>"

definition exampleClock :: jsdate where
  "exampleClock = \<lparr>year = 2024, month = 10, day = 31, msec = 1500\<rparr>"

section \<open>The statements of the specification\<close>

text \<open>A username with its first character in upper case and the others in lower case,
  by the runtime's case mappings.\<close>

definition capitalised :: "lib \<Rightarrow> string \<Rightarrow> string" where
  "capitalised L s = (case s of [] \<Rightarrow> [] | c # cs \<Rightarrow> toUpperCase L [c] @ toLowerCase L cs)"

text \<open>A string of four digits, a hyphen, two digits, a hyphen and two digits.\<close>

definition strictPattern :: "string \<Rightarrow> bool" where
  "strictPattern s =
     (length s = 10 \<and> s ! 4 = CHR ''-'' \<and> s ! 7 = CHR ''-'' \<and>
      list_all (\<lambda>i. isDigit (s ! i)) [0, 1, 2, 3, 5, 6, 8, 9])"

text \<open>A real date of the Gregorian calendar: month 1 to 12, and a day that the month
  has in that year.\<close>

definition leapYear :: "int \<Rightarrow> bool" where
  "leapYear y = (4 dvd y \<and> (\<not> 100 dvd y \<or> 400 dvd y))"

definition monthLength :: "int \<Rightarrow> nat \<Rightarrow> nat" where
  "monthLength y m =
     (if m = 2 then (if leapYear y then 29 else 28)
      else if m \<in> {4, 6, 9, 11} then 30 else 31)"

definition realCalendarDate :: "int \<Rightarrow> nat \<Rightarrow> nat \<Rightarrow> bool" where
  "realCalendarDate y m d = (1 \<le> m \<and> m \<le> 12 \<and> 1 \<le> d \<and> d \<le> monthLength y m)"

text \<open>A date of the Gregorian calendar whose year has at most four digits.\<close>

definition fourDigitDate :: "jsdate \<Rightarrow> bool" where
  "fourDigitDate t =
     (0 \<le> year t \<and> year t \<le> 9999 \<and> realCalendarDate (year t) (month t) (day t))"

text \<open>The effective limit as the specification words it: 20 when the parameter is
  absent, 1 when it is supplied as 0, the supplied value otherwise.\<close>

definition specLimit :: "lib \<Rightarrow> jsval \<Rightarrow> jsval" where
  "specLimit L v =
     (case v of Undefined \<Rightarrow> JNum 20 | _ \<Rightarrow> if looseEqZero L v then JNum 1 else v)"

section \<open>Properties\<close>

subsection \<open>Forwarded errors and the first response\<close>

lemma next_err_400: "m \<noteq> [] \<Longrightarrow> next_err (generateError m 400) [] =
   [Next (generateError m 400), Json 400 (ErrorBody 400 m)]"
  by (simp add: next_err_def ErrorHandler_def generateError_def resJson_def Let_def)

lemma next_err_404: "m \<noteq> [] \<Longrightarrow> next_err (generateError m 404) [] =
   [Next (generateError m 404), Json 404 (ErrorBody 404 m)]"
  by (simp add: next_err_def ErrorHandler_def generateError_def resJson_def Let_def)

lemma next_err_500: "m \<noteq> [] \<Longrightarrow> next_err (generateError m 500) [] =
   [Next (generateError m 500), Json 500 (ErrorBody 500 m)]"
  by (simp add: next_err_def ErrorHandler_def generateError_def resJson_def Let_def)

lemma resJson_nil: "resJson c p [] = ([Json c p], False)"
  by (simp add: resJson_def headersSent_def)

lemma invalidUsername_iff:
  "invalidUsername v = (v = Undefined \<or> \<not> isString v \<or> (\<exists>s. v = JStr s \<and> length s < 3))"
  by (cases v) (auto simp: invalidUsername_def strLength_def)

text \<open>
  Claim C6. A POST /api/users request whose \<open>username\<close> is absent, not a string or
  shorter than 3 characters is answered 400 with the invalid-username message; when the
  store reports a duplicate key (code 11000) the answer is 400 "User already exists";
  any other failure of the store gives 500 "Server error"; otherwise the answer is 201
  with the created user.
\<close>

theorem postUsers_responses:
  "(invalidUsername v = (v = Undefined \<or> \<not> isString v \<or> (\<exists>s. v = JStr s \<and> length s < 3))) \<and>
   (invalidUsername v \<longrightarrow>
      postUsers L oid d v =
        ([Next (generateError ''Invalid username. It must be a string with at least 3 characters.'' 400),
          Json 400 (ErrorBody 400 ''Invalid username. It must be a string with at least 3 characters.'')], d)) \<and>
   (\<not> invalidUsername v \<and> User_create L d oid v = Inl (DbError (Some 11000)) \<longrightarrow>
      postUsers L oid d v =
        ([Next (generateError ''User already exists'' 400),
          Json 400 (ErrorBody 400 ''User already exists'')], d)) \<and>
   (\<not> invalidUsername v \<and> User_create L d oid v = Inl (DbError c) \<and> c \<noteq> Some 11000 \<longrightarrow>
      postUsers L oid d v =
        ([Next (generateError ''Server error'' 500),
          Json 500 (ErrorBody 500 ''Server error'')], d)) \<and>
   (\<not> invalidUsername v \<and> User_create L d oid v = Inr (u, d') \<longrightarrow>
      postUsers L oid d v = ([Json 201 (UserBody u)], d'))"
proof (intro conjI)
  show "invalidUsername v = (v = Undefined \<or> \<not> isString v \<or> (\<exists>s. v = JStr s \<and> length s < 3))"
    by (rule invalidUsername_iff)
qed (simp_all add: postUsers_def next_err_400 next_err_500 resJson_nil)

lemma setUsername_capitalised: "s \<noteq> [] \<Longrightarrow> setUsername L s = capitalised L s"
  by (cases s) (simp_all add: setUsername_def capitalised_def charAt0_def slice1_def)

lemma User_create_users:
  "User_create L d oid v = Inr (u, d') \<Longrightarrow>
     \<exists>s. v = JStr s \<and> username u = setUsername L s \<and> u_id u = oid \<and>
         d' = d\<lparr>users := users d @ [u]\<rparr> \<and> username u \<notin> set (map username (users d))"
  by (cases v) (auto simp: User_create_def Let_def split: if_splits option.splits)

lemma postUsers_users:
  "users (snd (postUsers L oid d v)) = users d \<or>
   (\<exists>u. users (snd (postUsers L oid d v)) = users d @ [u] \<and>
        username u \<notin> set (map username (users d)))"
proof (cases "invalidUsername v")
  case True
  then show ?thesis by (simp add: postUsers_def)
next
  case False
  show ?thesis
  proof (cases "User_create L d oid v")
    case (Inl e)
    with False show ?thesis by (cases e) (simp add: postUsers_def)
  next
    case (Inr p)
    obtain u d' where p: "p = (u, d')" by (cases p)
    from User_create_users [of L d oid v u d'] Inr p
    have "d' = d\<lparr>users := users d @ [u]\<rparr>" "username u \<notin> set (map username (users d))"
      by auto
    with False Inr p show ?thesis by (simp add: postUsers_def resJson_nil)
  qed
qed

lemma postUsers_distinct:
  "distinct (map username (users d)) \<Longrightarrow>
     distinct (map username (users (snd (postUsers L oid d v))))"
  using postUsers_users [of L oid d v] by auto

lemma Exercise_create_users:
  "Exercise_create L d oid i du de dt = Inr (x, d') \<Longrightarrow> d' = d\<lparr>exercises := exercises d @ [x]\<rparr>"
  by (auto simp: Exercise_create_def Let_def split: option.splits)

lemma postExercise_users: "users (snd (postExercise L oid now d i du de da)) = users d"
  by (auto simp: postExercise_def resJson_nil Let_def dest!: Exercise_create_users
      split: sum.splits option.splits prod.splits)

lemma serve_distinct:
  "distinct (map username (users d)) \<Longrightarrow> distinct (map username (users (snd (serve L d q))))"
  by (cases q) (simp_all add: postUsers_distinct postExercise_users)

lemma serveAll_distinct:
  "distinct (map username (users d)) \<Longrightarrow> distinct (map username (users (serveAll L d qs)))"
  unfolding serveAll_def
  by (induction qs arbitrary: d) (simp_all add: serve_distinct)

text \<open>
  Claim C4. The username of a user that POST /api/users accepts is stored and returned
  with its first character in upper case and the rest in lower case (by the runtime's
  \<open>toUpperCase\<close> and \<open>toLowerCase\<close>), whatever the case of the input (\<open>jOHN\<close> becomes
  \<open>John\<close>), and no series of requests makes two users share a username.
\<close>

theorem username_normalised:
  "(postUsers L oid d (JStr s) = (r, d') \<and> response r = Some (201, UserBody u) \<longrightarrow>
      username u = capitalised L s \<and> users d' = users d @ [u] \<and> 3 \<le> length s) \<and>
   capitalised refLib ''jOHN'' = ''John'' \<and>
   (distinct (map username (users d)) \<longrightarrow>
      distinct (map username (users (serveAll L d qs))))"
proof (intro conjI impI)
  assume a: "postUsers L oid d (JStr s) = (r, d') \<and> response r = Some (201, UserBody u)"
  have ok: "\<not> invalidUsername (JStr s)"
    using a by (auto simp: postUsers_def next_err_400)
  obtain u0 d0 where c: "User_create L d oid (JStr s) = Inr (u0, d0)"
    using a ok by (cases "User_create L d oid (JStr s)")
      (auto simp: postUsers_def next_err_400 next_err_500 split: dberror.splits if_splits)
  with a ok have e: "u0 = u" "d0 = d'" by (auto simp: postUsers_def resJson_nil)
  from ok have l: "3 \<le> length s" by (simp add: invalidUsername_def strLength_def)
  then have ne: "s \<noteq> []" by auto
  from User_create_users [OF c] e ne
  show "username u = capitalised L s" "users d' = users d @ [u]"
    by (auto simp: setUsername_capitalised)
  from l show "3 \<le> length s" .
next
  show "capitalised refLib ''jOHN'' = ''John''"
    by code_simp
next
  assume "distinct (map username (users d))"
  then show "distinct (map username (users (serveAll L d qs)))" by (rule serveAll_distinct)
qed

theorem postUsers_responses_witness:
  "postUsers refLib ''u1'' emptyDb (JStr ''ab'') =
     ([Next (generateError ''Invalid username. It must be a string with at least 3 characters.'' 400),
       Json 400 (ErrorBody 400 ''Invalid username. It must be a string with at least 3 characters.'')],
      emptyDb) \<and>
   postUsers refLib ''u2'' \<lparr>users = [\<lparr>u_id = ''u1'', username = ''Amy''\<rparr>], exercises = [], fault = None\<rparr>
       (JStr ''AMY'') =
     ([Next (generateError ''User already exists'' 400),
       Json 400 (ErrorBody 400 ''User already exists'')],
      \<lparr>users = [\<lparr>u_id = ''u1'', username = ''Amy''\<rparr>], exercises = [], fault = None\<rparr>) \<and>
   postUsers refLib ''u1'' \<lparr>users = [], exercises = [], fault = Some (DbError None)\<rparr> (JStr ''amy'') =
     ([Next (generateError ''Server error'' 500), Json 500 (ErrorBody 500 ''Server error'')],
      \<lparr>users = [], exercises = [], fault = Some (DbError None)\<rparr>) \<and>
   postUsers refLib ''u1'' emptyDb (JStr ''amy'') =
     ([Json 201 (UserBody \<lparr>u_id = ''u1'', username = ''Amy''\<rparr>)],
      \<lparr>users = [\<lparr>u_id = ''u1'', username = ''Amy''\<rparr>], exercises = [], fault = None\<rparr>)"
proof -
  have 1: "invalidUsername (JStr ''ab'')"
    by code_simp
  have 2: "\<not> invalidUsername (JStr ''AMY'') \<and>
      User_create refLib \<lparr>users = [\<lparr>u_id = ''u1'', username = ''Amy''\<rparr>], exercises = [], fault = None\<rparr>
        ''u2'' (JStr ''AMY'') = Inl (DbError (Some 11000))"
    by code_simp
  have 3: "\<not> invalidUsername (JStr ''amy'') \<and>
      User_create refLib \<lparr>users = [], exercises = [], fault = Some (DbError None)\<rparr> ''u1'' (JStr ''amy'') =
        Inl (DbError None) \<and> None \<noteq> Some (11000::nat)"
    by code_simp
  have 4: "\<not> invalidUsername (JStr ''amy'') \<and>
      User_create refLib emptyDb ''u1'' (JStr ''amy'') =
        Inr (\<lparr>u_id = ''u1'', username = ''Amy''\<rparr>,
             \<lparr>users = [\<lparr>u_id = ''u1'', username = ''Amy''\<rparr>], exercises = [], fault = None\<rparr>)"
    by code_simp
  note r1 = postUsers_responses [THEN conjunct2, THEN conjunct1, THEN mp, OF 1]
  note r2 = postUsers_responses [THEN conjunct2, THEN conjunct2, THEN conjunct1, THEN mp, OF 2]
  note r3 = postUsers_responses [THEN conjunct2, THEN conjunct2, THEN conjunct2, THEN conjunct1,
      THEN mp, OF 3]
  note r4 = postUsers_responses [THEN conjunct2, THEN conjunct2, THEN conjunct2, THEN conjunct2,
      THEN mp, OF 4]
  show ?thesis by (rule conjI [OF r1 conjI [OF r2 conjI [OF r3 r4]]])
qed

theorem username_normalised_witness:
  "(postUsers refLib ''u1'' emptyDb (JStr ''jOHN'') =
      ([Json 201 (UserBody \<lparr>u_id = ''u1'', username = ''John''\<rparr>)],
       \<lparr>users = [\<lparr>u_id = ''u1'', username = ''John''\<rparr>], exercises = [], fault = None\<rparr>) \<and>
    response [Json 201 (UserBody \<lparr>u_id = ''u1'', username = ''John''\<rparr>)] =
      Some (201, UserBody \<lparr>u_id = ''u1'', username = ''John''\<rparr>)) \<and>
   (username \<lparr>u_id = ''u1'', username = ''John''\<rparr> = capitalised refLib ''jOHN'' \<and>
    users \<lparr>users = [\<lparr>u_id = ''u1'', username = ''John''\<rparr>], exercises = [], fault = None\<rparr> =
      users emptyDb @ [\<lparr>u_id = ''u1'', username = ''John''\<rparr>] \<and>
    3 \<le> length ''jOHN'') \<and>
   distinct (map username (users (serveAll refLib emptyDb
      [PostUsers ''u1'' (JStr ''john''), PostUsers ''u2'' (JStr ''JOHN'')])))"
proof -
  have a: "postUsers refLib ''u1'' emptyDb (JStr ''jOHN'') =
      ([Json 201 (UserBody \<lparr>u_id = ''u1'', username = ''John''\<rparr>)],
       \<lparr>users = [\<lparr>u_id = ''u1'', username = ''John''\<rparr>], exercises = [], fault = None\<rparr>) \<and>
    response [Json 201 (UserBody \<lparr>u_id = ''u1'', username = ''John''\<rparr>)] =
      Some (201, UserBody \<lparr>u_id = ''u1'', username = ''John''\<rparr>)"
    by code_simp
  have d: "distinct (map username (users emptyDb))"
    by code_simp
  note b = username_normalised [THEN conjunct1, THEN mp, OF a]
  note c = username_normalised [THEN conjunct2, THEN conjunct2, THEN mp, OF d]
  show ?thesis by (rule conjI [OF a conjI [OF b c]])
qed

lemma User_findById_None:
  "castObjectId L i = Some k \<Longrightarrow> fault d = None \<Longrightarrow> \<forall>u\<in>set (users d). u_id u \<noteq> k \<Longrightarrow>
     User_findById L d i = Inr None"
  by (simp add: User_findById_def find_None_iff)

lemma User_findById_Some:
  "castObjectId L i = Some k \<Longrightarrow> fault d = None \<Longrightarrow> \<exists>u\<in>set (users d). u_id u = k \<Longrightarrow>
     \<exists>u. User_findById L d i = Inr (Some u) \<and> u \<in> set (users d) \<and> u_id u = k"
  by (cases "find (\<lambda>u. u_id u = k) (users d)")
     (auto simp: User_findById_def find_None_iff find_Some_iff)

lemma User_findById_invalid: "\<not> isValid L i \<Longrightarrow> User_findById L d i = Inl (DbError None)"
  by (simp add: User_findById_def isValid_def)

lemma next_err_again: "list_ex isNext r \<Longrightarrow> next_err e r = r @ [Next e]"
  by (simp add: next_err_def)

subsection \<open>The exercise handler\<close>

text \<open>
  Claim C1. POST /api/users/:id/exercises checks in this order and stops at the first
  failure: 400 when the id is not a valid identifier; then 404 when no user has the
  identifier; then 400 when the description or the duration is missing or falsy. The
  answer of an earlier failure does not depend on anything a later check reads.
\<close>

theorem postExercise_check_order:
  "(\<not> isValid L i \<longrightarrow>
      postExercise L oid now d i du de da =
        ([Next (generateError ''Invalid or missing ID. The ID must be exactly 24 characters long.'' 400),
          Json 400 (ErrorBody 400 ''Invalid or missing ID. The ID must be exactly 24 characters long.'')],
         d) \<and>
      fst (postExercise L oid now d i du de da) = fst (postExercise L oid' now' d' i du' de' da')) \<and>
   (castObjectId L i = Some k \<and> fault d = None \<and> (\<forall>u\<in>set (users d). u_id u \<noteq> k) \<longrightarrow>
      postExercise L oid now d i du de da =
        ([Next (generateError ''User not found. Please check the ID and try again.'' 404),
          Json 404 (ErrorBody 404 ''User not found. Please check the ID and try again.'')], d) \<and>
      postExercise L oid now d i du de da = postExercise L oid' now' d i du' de' da') \<and>
   (castObjectId L i = Some k \<and> fault d = None \<and> (\<exists>u\<in>set (users d). u_id u = k) \<and>
    (\<not> truthy de \<or> \<not> truthy du) \<longrightarrow>
      postExercise L oid now d i du de da =
        ([Next (generateError
            ''Description and duration are required. Please provide them and try again.'' 400),
          Json 400 (ErrorBody 400
            ''Description and duration are required. Please provide them and try again.'')], d) \<and>
      postExercise L oid now d i du de da = postExercise L oid' now' d i du de da')"
proof (intro conjI impI)
  assume "\<not> isValid L i"
  then show "postExercise L oid now d i du de da =
        ([Next (generateError ''Invalid or missing ID. The ID must be exactly 24 characters long.'' 400),
          Json 400 (ErrorBody 400 ''Invalid or missing ID. The ID must be exactly 24 characters long.'')],
         d)"
    and "fst (postExercise L oid now d i du de da) = fst (postExercise L oid' now' d' i du' de' da')"
    by (simp_all add: postExercise_def next_err_400)
next
  assume a: "castObjectId L i = Some k \<and> fault d = None \<and> (\<forall>u\<in>set (users d). u_id u \<noteq> k)"
  then have v: "isValid L i" and f: "User_findById L d i = Inr None"
    by (simp_all add: isValid_def User_findById_None)
  from v f show "postExercise L oid now d i du de da =
        ([Next (generateError ''User not found. Please check the ID and try again.'' 404),
          Json 404 (ErrorBody 404 ''User not found. Please check the ID and try again.'')], d)"
    and "postExercise L oid now d i du de da = postExercise L oid' now' d i du' de' da'"
    by (simp_all add: postExercise_def next_err_404)
next
  assume a: "castObjectId L i = Some k \<and> fault d = None \<and> (\<exists>u\<in>set (users d). u_id u = k) \<and>
    (\<not> truthy de \<or> \<not> truthy du)"
  then have v: "isValid L i" by (simp add: isValid_def)
  from a User_findById_Some [of L i k d] obtain u where f: "User_findById L d i = Inr (Some u)"
    by blast
  from a have t: "\<not> truthy de \<or> \<not> truthy du" by simp
  from v f t show "postExercise L oid now d i du de da =
        ([Next (generateError
            ''Description and duration are required. Please provide them and try again.'' 400),
          Json 400 (ErrorBody 400
            ''Description and duration are required. Please provide them and try again.'')], d)"
    and "postExercise L oid now d i du de da = postExercise L oid' now' d i du de da'"
    by (simp_all add: postExercise_def next_err_400)
qed

theorem postExercise_check_order_witness:
  "(postExercise refLib ''e1'' exampleClock exampleDb ''123'' (JStr ''30'') (JStr ''run'') Undefined =
     ([Next (generateError ''Invalid or missing ID. The ID must be exactly 24 characters long.'' 400),
       Json 400 (ErrorBody 400 ''Invalid or missing ID. The ID must be exactly 24 characters long.'')],
      exampleDb) \<and>
    fst (postExercise refLib ''e1'' exampleClock exampleDb ''123'' (JStr ''30'') (JStr ''run'') Undefined) =
    fst (postExercise refLib ''e2'' exampleClock emptyDb ''123'' Undefined Undefined (JStr ''x''))) \<and>
   (postExercise refLib ''e1'' exampleClock exampleDb ''507f1f77bcf86cd799439099'' Undefined Undefined
       (JStr ''x'') =
     ([Next (generateError ''User not found. Please check the ID and try again.'' 404),
       Json 404 (ErrorBody 404 ''User not found. Please check the ID and try again.'')], exampleDb) \<and>
    postExercise refLib ''e1'' exampleClock exampleDb ''507f1f77bcf86cd799439099'' Undefined Undefined
       (JStr ''x'') =
    postExercise refLib ''e2'' exampleClock exampleDb ''507f1f77bcf86cd799439099'' (JStr ''30'')
       (JStr ''run'') Undefined) \<and>
   (postExercise refLib ''e1'' exampleClock exampleDb amyId (JStr ''30'') (JStr []) (JStr ''x'') =
     ([Next (generateError
         ''Description and duration are required. Please provide them and try again.'' 400),
       Json 400 (ErrorBody 400
         ''Description and duration are required. Please provide them and try again.'')], exampleDb) \<and>
    postExercise refLib ''e1'' exampleClock exampleDb amyId (JStr ''30'') (JStr []) (JStr ''x'') =
    postExercise refLib ''e2'' exampleClock exampleDb amyId (JStr ''30'') (JStr []) Undefined)"
proof -
  have 1: "\<not> isValid refLib ''123''"
    by code_simp
  have 2: "castObjectId refLib ''507f1f77bcf86cd799439099'' = Some ''507f1f77bcf86cd799439099'' \<and>
      fault exampleDb = None \<and> (\<forall>u\<in>set (users exampleDb). u_id u \<noteq> ''507f1f77bcf86cd799439099'')"
    by code_simp
  have 3: "castObjectId refLib amyId = Some amyId \<and> fault exampleDb = None \<and>
      (\<exists>u\<in>set (users exampleDb). u_id u = amyId) \<and> (\<not> truthy (JStr []) \<or> \<not> truthy (JStr ''30''))"
    by code_simp
  note r1 = postExercise_check_order [THEN conjunct1, THEN mp, OF 1]
  note r2 = postExercise_check_order [THEN conjunct2, THEN conjunct1, THEN mp, OF 2]
  note r3 = postExercise_check_order [THEN conjunct2, THEN conjunct2, THEN mp, OF 3]
  show ?thesis by (rule conjI [OF r1 conjI [OF r2 r3]])
qed

subsection \<open>Strict dates\<close>

lemma length10E:
  assumes "length s = 10"
  obtains a b c d e f g h i j where "s = [a, b, c, d, e, f, g, h, i, j]"
  using assms by (auto simp: eval_nat_numeral length_Suc_conv)

lemma matchesYMD_strictPattern: "matchesYMD s = strictPattern s"
proof (cases "length s = 10")
  case True
  then show ?thesis
    by (rule length10E) (auto simp: strictPattern_def)
next
  case False
  then have "\<not> matchesYMD s"
    by (auto elim!: matchesYMD.elims)
  with False show ?thesis by (simp add: strictPattern_def)
qed

lemma isLeapYear_leapYear: "isLeapYear y = leapYear y"
proof -
  have "(4::int) dvd 400" by simp
  then have "400 dvd y \<Longrightarrow> 4 dvd y" by (rule dvd_trans)
  then show ?thesis
    unfolding isLeapYear_def leapYear_def mod_eq_0_iff_dvd by blast
qed

lemma daysInMonth_monthLength:
  assumes "1 \<le> m" "m \<le> 12"
  shows "daysInMonth y (int m - 1) = int (monthLength y m)"
proof -
  from assms have "m = 1 \<or> m = 2 \<or> m = 3 \<or> m = 4 \<or> m = 5 \<or> m = 6 \<or> m = 7 \<or> m = 8 \<or>
      m = 9 \<or> m = 10 \<or> m = 11 \<or> m = 12"
    by arith
  then show ?thesis
    by (elim disjE) (simp_all add: daysInMonth_def monthLength_def isLeapYear_leapYear)
qed

lemma overflows_realCalendarDate:
  "overflows y (int m - 1) (int d) = (\<not> realCalendarDate y m d)"
proof (cases "1 \<le> m \<and> m \<le> 12")
  case True
  then have "daysInMonth y (int m - 1) = int (monthLength y m)"
    by (simp add: daysInMonth_monthLength)
  with True show ?thesis
    by (auto simp: overflows_def realCalendarDate_def)
next
  case False
  then show ?thesis
    by (auto simp: overflows_def realCalendarDate_def)
qed

lemma momentStrictYMD_Some:
  "(momentStrictYMD s \<noteq> None) =
     (strictPattern s \<and>
      realCalendarDate (int (toInt (take 4 s))) (toInt (take 2 (drop 5 s))) (toInt (take 2 (drop 8 s))))"
  by (simp add: momentStrictYMD_def Let_def matchesYMD_strictPattern overflows_realCalendarDate)

lemma digitChar_props:
  assumes "k < 10"
  shows "isDigit (digitChar k)" and "digitVal (digitChar k) = k"
proof -
  from assms have "k = 0 \<or> k = 1 \<or> k = 2 \<or> k = 3 \<or> k = 4 \<or> k = 5 \<or> k = 6 \<or> k = 7 \<or>
      k = 8 \<or> k = 9"
    by arith
  then show "isDigit (digitChar k)" and "digitVal (digitChar k) = k"
    by (auto simp: digitChar_def isDigit_def digitVal_def)
qed

lemma decimal_lt10: "n < 10 \<Longrightarrow> decimal n = [digitChar n]"
  by (simp add: decimal.simps)

lemma decimal_ge10: "10 \<le> n \<Longrightarrow> decimal n = decimal (n div 10) @ [digitChar (n mod 10)]"
  by (subst decimal.simps) simp

lemma digitChar_0: "digitChar 0 = CHR ''0''"
  by (simp add: digitChar_def)

lemma zeroFill2:
  assumes "n < 100"
  shows "zeroFill (int n) 2 = [digitChar (n div 10), digitChar (n mod 10)]"
proof (cases "n < 10")
  case True
  then show ?thesis
    by (simp add: zeroFill_def decimal_lt10 digitChar_0)
next
  case False
  with assms have "n div 10 < 10" by arith
  with False show ?thesis
    by (simp add: zeroFill_def decimal_ge10 decimal_lt10)
qed

lemma decimal2:
  "10 \<le> n \<Longrightarrow> n < 100 \<Longrightarrow> decimal n = [digitChar (n div 10), digitChar (n mod 10)]"
  by (simp add: decimal_ge10 decimal_lt10)

lemma decimal3:
  assumes "100 \<le> n" "n < 1000"
  shows "decimal n = [digitChar (n div 100), digitChar (n div 10 mod 10), digitChar (n mod 10)]"
proof -
  from assms have "10 \<le> n div 10" "n div 10 < 100" by arith+
  then have "decimal (n div 10) = [digitChar (n div 10 div 10), digitChar (n div 10 mod 10)]"
    by (rule decimal2)
  moreover have "n div 10 div 10 = n div 100" by arith
  ultimately show ?thesis using assms by (simp add: decimal_ge10)
qed

lemma decimal4:
  assumes "1000 \<le> n" "n < 10000"
  shows "decimal n = [digitChar (n div 1000), digitChar (n div 100 mod 10),
                      digitChar (n div 10 mod 10), digitChar (n mod 10)]"
proof -
  from assms have "100 \<le> n div 10" "n div 10 < 1000" by arith+
  then have "decimal (n div 10) =
      [digitChar (n div 10 div 100), digitChar (n div 10 div 10 mod 10), digitChar (n div 10 mod 10)]"
    by (rule decimal3)
  moreover have "n div 10 div 100 = n div 1000" "n div 10 div 10 = n div 100" by arith+
  ultimately show ?thesis using assms by (simp add: decimal_ge10)
qed

lemma toInt2:
  "a < 10 \<Longrightarrow> b < 10 \<Longrightarrow> toInt [digitChar a, digitChar b] = 10 * a + b"
  by (simp add: toInt_def digitChar_props)

lemma toInt4:
  "a < 10 \<Longrightarrow> b < 10 \<Longrightarrow> c < 10 \<Longrightarrow> d < 10 \<Longrightarrow>
     toInt [digitChar a, digitChar b, digitChar c, digitChar d] = 1000 * a + 100 * b + 10 * c + d"
  by (simp add: toInt_def digitChar_props)

lemma monthLength_le: "monthLength y m \<le> 31"
  by (simp add: monthLength_def)

lemma zeroFill_nat:
  "zeroFill (int n) k = replicate (k - length (decimal n)) (CHR ''0'') @ decimal n"
  by (simp add: zeroFill_def Let_def)

lemma replicate_zeros:
  "replicate 3 (CHR ''0'') = ''000''" "replicate 2 (CHR ''0'') = ''00''"
  by (simp_all add: numeral_3_eq_3 numeral_2_eq_2)

lemma zeroFill4:
  assumes "n < 10000"
  shows "zeroFill (int n) 4 =
     [digitChar (n div 1000), digitChar (n div 100 mod 10), digitChar (n div 10 mod 10),
      digitChar (n mod 10)]"
proof -
  consider "n < 10" | "10 \<le> n \<and> n < 100" | "100 \<le> n \<and> n < 1000" | "1000 \<le> n"
    by linarith
  then show ?thesis
  proof cases
    case 1
    then have d: "n div 1000 = 0" "n div 100 = 0" "n div 10 = 0" "n mod 10 = n"
      by simp_all
    show ?thesis
      unfolding zeroFill_nat decimal_lt10 [OF 1] d
      by (simp add: replicate_zeros digitChar_0)
  next
    case 2
    then have "n div 10 < 10" by arith
    with 2 have d: "n div 1000 = 0" "n div 100 = 0" "n div 10 mod 10 = n div 10"
      by simp_all
    from 2 have e: "decimal n = [digitChar (n div 10), digitChar (n mod 10)]"
      by (simp add: decimal2)
    show ?thesis
      unfolding zeroFill_nat e d
      by (simp add: replicate_zeros digitChar_0)
  next
    case 3
    then have "n div 100 < 10" by arith
    with 3 have d: "n div 1000 = 0" "n div 100 mod 10 = n div 100"
      by simp_all
    from 3 have e: "decimal n =
        [digitChar (n div 100), digitChar (n div 10 mod 10), digitChar (n mod 10)]"
      by (simp add: decimal3)
    show ?thesis
      unfolding zeroFill_nat e d
      by (simp add: digitChar_0)
  next
    case 4
    with assms have e: "decimal n =
        [digitChar (n div 1000), digitChar (n div 100 mod 10), digitChar (n div 10 mod 10),
         digitChar (n mod 10)]"
      by (simp add: decimal4)
    show ?thesis
      unfolding zeroFill_nat e by simp
  qed
qed

lemma digits_sum:
  "(n::nat) = 10 * x1 + r0 \<Longrightarrow> x1 = 10 * x2 + r1 \<Longrightarrow> x2 = 10 * x3 + r2 \<Longrightarrow>
     1000 * x3 + 100 * r2 + 10 * r1 + r0 = n"
  by simp

lemma decimal_value4:
  "1000 * (n div 1000) + 100 * (n div 100 mod 10) + 10 * (n div 10 mod 10) + n mod 10 = (n::nat)"
proof -
  have a: "n = 10 * (n div 10) + n mod 10"
    by (rule mult_div_mod_eq [symmetric])
  have "n div 10 = 10 * (n div 10 div 10) + n div 10 mod 10"
    by (rule mult_div_mod_eq [symmetric])
  moreover have "n div 10 div 10 = n div 100"
    by (simp add: div_mult2_eq [symmetric])
  ultimately have b: "n div 10 = 10 * (n div 100) + n div 10 mod 10"
    by (simp only:)
  have "n div 100 = 10 * (n div 100 div 10) + n div 100 mod 10"
    by (rule mult_div_mod_eq [symmetric])
  moreover have "n div 100 div 10 = n div 1000"
    by (simp add: div_mult2_eq [symmetric])
  ultimately have c: "n div 100 = 10 * (n div 1000) + n div 100 mod 10"
    by (simp only:)
  show ?thesis by (rule digits_sum [OF a b c])
qed

lemma decimal_value2: "10 * (m div 10) + m mod 10 = (m::nat)"
  by (rule mult_div_mod_eq)

lemma formatDate_roundtrip:
  assumes "fourDigitDate t"
  shows "momentStrictYMD (formatDate (Some t)) = Some (t\<lparr>msec := 0\<rparr>)"
proof -
  define n where "n = nat (year t)"
  define m where "m = month t"
  define d where "d = day t"
  from assms have y: "year t = int n" and n: "n < 10000"
    by (auto simp: fourDigitDate_def n_def)
  from assms have cal: "realCalendarDate (int n) m d"
    by (simp add: fourDigitDate_def y [symmetric] m_def d_def)
  then have m: "m < 100" and d: "d < 100"
    using monthLength_le [of "int n" m] by (simp_all add: realCalendarDate_def)
  have f: "formatDate (Some t) =
      [digitChar (n div 1000), digitChar (n div 100 mod 10), digitChar (n div 10 mod 10),
       digitChar (n mod 10), CHR ''-'', digitChar (m div 10), digitChar (m mod 10), CHR ''-'',
       digitChar (d div 10), digitChar (d mod 10)]"
    using n m d by (simp add: formatDate_def y zeroFill4 zeroFill2 m_def [symmetric] d_def [symmetric])
  have b: "n div 1000 < 10" "n div 100 mod 10 < 10" "n div 10 mod 10 < 10" "n mod 10 < 10"
      "m div 10 < 10" "m mod 10 < 10" "d div 10 < 10" "d mod 10 < 10"
    using n m d by simp_all
  have "momentStrictYMD (formatDate (Some t)) = Some \<lparr>year = int n, month = m, day = d, msec = 0\<rparr>"
    unfolding f using b cal
    by (simp add: momentStrictYMD_def digitChar_props toInt4 toInt2 decimal_value4 decimal_value2
        overflows_realCalendarDate)
  then show ?thesis
    by (simp add: y [symmetric] m_def d_def)
qed

text \<open>
  Claim C5. The date check of exercise creation accepts a string exactly when it is
  four digits, a hyphen, two digits, a hyphen and two digits, and these denote a real
  calendar date: \<open>2024-02-29\<close> is accepted, \<open>2024-02-30\<close> and \<open>2024-2-5\<close> are rejected. A
  request that reaches the check with a date that fails it is answered 400.
\<close>

theorem isValidFormat_calendar:
  "(isValidFormat (JStr s) =
      (strictPattern s \<and>
       realCalendarDate (int (toInt (take 4 s))) (toInt (take 2 (drop 5 s)))
         (toInt (take 2 (drop 8 s))))) \<and>
   isValidFormat (JStr ''2024-02-29'') \<and>
   \<not> isValidFormat (JStr ''2024-02-30'') \<and>
   \<not> isValidFormat (JStr ''2024-2-5'') \<and>
   (castObjectId L i = Some k \<and> fault d = None \<and> (\<exists>u\<in>set (users d). u_id u = k) \<and>
    truthy de \<and> truthy du \<and> truthy da \<and> \<not> isValidFormat da \<longrightarrow>
      postExercise L oid now d i du de da =
        ([Next (generateError
            ''Invalid date. Please use the yyyy-mm-dd format and ensure date is a valid calendar date.''
            400),
          Json 400 (ErrorBody 400
            ''Invalid date. Please use the yyyy-mm-dd format and ensure date is a valid calendar date.'')],
         d))"
proof (intro conjI impI)
  show "isValidFormat (JStr s) =
      (strictPattern s \<and>
       realCalendarDate (int (toInt (take 4 s))) (toInt (take 2 (drop 5 s)))
         (toInt (take 2 (drop 8 s))))"
    by (simp only: isValidFormat_def jsToString.simps momentStrictYMD_Some)
  show "isValidFormat (JStr ''2024-02-29'')" by code_simp
  show "\<not> isValidFormat (JStr ''2024-02-30'')" by code_simp
  show "\<not> isValidFormat (JStr ''2024-2-5'')" by code_simp
next
  assume a: "castObjectId L i = Some k \<and> fault d = None \<and> (\<exists>u\<in>set (users d). u_id u = k) \<and>
    truthy de \<and> truthy du \<and> truthy da \<and> \<not> isValidFormat da"
  then have v: "isValid L i" by (simp add: isValid_def)
  from a User_findById_Some [of L i k d] obtain u where f: "User_findById L d i = Inr (Some u)"
    by blast
  from a v f show "postExercise L oid now d i du de da =
        ([Next (generateError
            ''Invalid date. Please use the yyyy-mm-dd format and ensure date is a valid calendar date.''
            400),
          Json 400 (ErrorBody 400
            ''Invalid date. Please use the yyyy-mm-dd format and ensure date is a valid calendar date.'')],
         d)"
    by (simp add: postExercise_def next_err_400)
qed

theorem isValidFormat_calendar_witness:
  "isValidFormat (JStr ''2023-11-30'') =
     (strictPattern ''2023-11-30'' \<and>
      realCalendarDate (int (toInt (take 4 ''2023-11-30''))) (toInt (take 2 (drop 5 ''2023-11-30'')))
        (toInt (take 2 (drop 8 ''2023-11-30'')))) \<and>
   realCalendarDate 2023 11 30 \<and> \<not> realCalendarDate 2023 11 31 \<and>
   postExercise refLib ''e1'' exampleClock exampleDb amyId (JStr ''30'') (JStr ''run'')
       (JStr ''2023-11-31'') =
     ([Next (generateError
         ''Invalid date. Please use the yyyy-mm-dd format and ensure date is a valid calendar date.''
         400),
       Json 400 (ErrorBody 400
         ''Invalid date. Please use the yyyy-mm-dd format and ensure date is a valid calendar date.'')],
      exampleDb)"
proof -
  have h: "castObjectId refLib amyId = Some amyId \<and> fault exampleDb = None \<and>
      (\<exists>u\<in>set (users exampleDb). u_id u = amyId) \<and>
      truthy (JStr ''run'') \<and> truthy (JStr ''30'') \<and> truthy (JStr ''2023-11-31'') \<and>
      \<not> isValidFormat (JStr ''2023-11-31'')"
    by code_simp
  have c: "realCalendarDate 2023 11 30 \<and> \<not> realCalendarDate 2023 11 31"
    by code_simp
  note r1 = isValidFormat_calendar [THEN conjunct1]
  note r2 = isValidFormat_calendar [THEN conjunct2, THEN conjunct2, THEN conjunct2, THEN conjunct2,
      THEN mp, OF h]
  show ?thesis by (rule conjI [OF r1 conjI [OF conjunct1 [OF c] conjI [OF conjunct2 [OF c] r2]]])
qed

subsection \<open>The default date\<close>

lemma Exercise_create_fields:
  "Exercise_create L d oid i du de dt = Inr (x, d') \<Longrightarrow>
     dt = Some (e_date x) \<and> e_id x = oid \<and> d' = d\<lparr>exercises := exercises d @ [x]\<rparr>"
  by (auto simp: Exercise_create_def Let_def split: option.splits)

lemma postExercise_success:
  assumes "postExercise L oid now d i du de da = (r, d')"
    and "response r = Some (c, ExerciseBody b)"
  shows "\<exists>x. Exercise_create L d oid i du de
              (if truthy da then momentParse L da else Some (toSecond now)) = Inr (x, d') \<and>
            r = [Json 200 (exerciseBody x)] \<and> c = 200 \<and> ExerciseBody b = exerciseBody x"
  using assms
  by (auto simp: postExercise_def next_err_400 next_err_404 next_err_500 resJson_nil exerciseBody_def
      split: if_splits sum.splits option.splits prod.splits)

lemma formatDate_toSecond: "formatDate (Some (toSecond t)) = formatDate (Some t)"
  by (simp add: formatDate_def toSecond_def)

text \<open>
  Claim C7. A successful POST /api/users/:id/exercises without a date stores the
  exercise with the clock's reading when the request is handled (to the second), and
  answers 200 with the date rendered as \<open>YYYY-MM-DD\<close>: the rendered text is today's
  date, and reads back strictly as that date.
\<close>

theorem postExercise_default_date:
  "\<not> truthy da \<and> postExercise L oid now d i du de da = (r, d') \<and>
   response r = Some (c, ExerciseBody b) \<longrightarrow>
     c = 200 \<and> r = [Json 200 (ExerciseBody b)] \<and>
     (\<exists>x. exercises d' = exercises d @ [x] \<and> e_date x = toSecond now \<and>
          year (e_date x) = year now \<and> month (e_date x) = month now \<and> day (e_date x) = day now \<and>
          ExerciseBody b = exerciseBody x) \<and>
     x_date b = formatDate (Some now) \<and>
     (fourDigitDate now \<longrightarrow> momentStrictYMD (x_date b) = Some (now\<lparr>msec := 0\<rparr>))"
proof (intro impI)
  assume a: "\<not> truthy da \<and> postExercise L oid now d i du de da = (r, d') \<and>
    response r = Some (c, ExerciseBody b)"
  with postExercise_success [of L oid now d i du de da r d' c b]
  obtain x where x: "Exercise_create L d oid i du de (Some (toSecond now)) = Inr (x, d')"
      "r = [Json 200 (exerciseBody x)]" "c = 200" "ExerciseBody b = exerciseBody x"
    by auto
  from Exercise_create_fields [OF x(1)]
  have e: "e_date x = toSecond now" "d' = d\<lparr>exercises := exercises d @ [x]\<rparr>"
    by simp_all
  from x(4) e(1) have dt: "x_date b = formatDate (Some now)"
    by (simp add: exerciseBody_def formatDate_toSecond)
  have f: "fourDigitDate now \<longrightarrow> momentStrictYMD (x_date b) = Some (now\<lparr>msec := 0\<rparr>)"
    unfolding dt by (simp add: formatDate_roundtrip)
  have ex: "\<exists>x. exercises d' = exercises d @ [x] \<and> e_date x = toSecond now \<and>
          year (e_date x) = year now \<and> month (e_date x) = month now \<and> day (e_date x) = day now \<and>
          ExerciseBody b = exerciseBody x"
    using x(4) e by (intro exI [of _ x]) (simp add: toSecond_def)
  from x(2,3,4) ex dt f
  show "c = 200 \<and> r = [Json 200 (ExerciseBody b)] \<and>
     (\<exists>x. exercises d' = exercises d @ [x] \<and> e_date x = toSecond now \<and>
          year (e_date x) = year now \<and> month (e_date x) = month now \<and> day (e_date x) = day now \<and>
          ExerciseBody b = exerciseBody x) \<and>
     x_date b = formatDate (Some now) \<and>
     (fourDigitDate now \<longrightarrow> momentStrictYMD (x_date b) = Some (now\<lparr>msec := 0\<rparr>))"
    by simp
qed

theorem postExercise_default_date_witness:
  "(\<not> truthy Undefined \<and>
    postExercise refLib ''e1'' exampleClock exampleDb amyId (JStr ''30'') (JStr ''run'') Undefined =
      ([Json 200 (ExerciseBody \<lparr>x_id = ''e1'', x_userId = amyId, x_duration = 30,
          x_description = ''run'', x_date = ''2024-10-31''\<rparr>)],
       exampleDb\<lparr>exercises := exercises exampleDb @
          [\<lparr>e_id = ''e1'', e_userId = amyId, e_duration = 30, e_description = ''run'',
            e_date = \<lparr>year = 2024, month = 10, day = 31, msec = 1000\<rparr>\<rparr>]\<rparr>) \<and>
    response [Json 200 (ExerciseBody \<lparr>x_id = ''e1'', x_userId = amyId, x_duration = 30,
          x_description = ''run'', x_date = ''2024-10-31''\<rparr>)] =
      Some (200, ExerciseBody \<lparr>x_id = ''e1'', x_userId = amyId, x_duration = 30,
          x_description = ''run'', x_date = ''2024-10-31''\<rparr>)) \<and>
   x_date \<lparr>x_id = ''e1'', x_userId = amyId, x_duration = 30, x_description = ''run'',
      x_date = ''2024-10-31''\<rparr> = formatDate (Some exampleClock) \<and>
   momentStrictYMD (x_date \<lparr>x_id = ''e1'', x_userId = amyId, x_duration = 30,
      x_description = ''run'', x_date = ''2024-10-31''\<rparr>) = Some (exampleClock\<lparr>msec := 0\<rparr>)"
proof -
  have h: "\<not> truthy Undefined \<and>
    postExercise refLib ''e1'' exampleClock exampleDb amyId (JStr ''30'') (JStr ''run'') Undefined =
      ([Json 200 (ExerciseBody \<lparr>x_id = ''e1'', x_userId = amyId, x_duration = 30,
          x_description = ''run'', x_date = ''2024-10-31''\<rparr>)],
       exampleDb\<lparr>exercises := exercises exampleDb @
          [\<lparr>e_id = ''e1'', e_userId = amyId, e_duration = 30, e_description = ''run'',
            e_date = \<lparr>year = 2024, month = 10, day = 31, msec = 1000\<rparr>\<rparr>]\<rparr>) \<and>
    response [Json 200 (ExerciseBody \<lparr>x_id = ''e1'', x_userId = amyId, x_duration = 30,
          x_description = ''run'', x_date = ''2024-10-31''\<rparr>)] =
      Some (200, ExerciseBody \<lparr>x_id = ''e1'', x_userId = amyId, x_duration = 30,
          x_description = ''run'', x_date = ''2024-10-31''\<rparr>)"
    by code_simp
  have w: "fourDigitDate exampleClock"
    by code_simp
  note r = postExercise_default_date [THEN mp, OF h]
  note r4 = r [THEN conjunct2, THEN conjunct2, THEN conjunct2, THEN conjunct1]
  note r5 = r [THEN conjunct2, THEN conjunct2, THEN conjunct2, THEN conjunct2, THEN mp, OF w]
  show ?thesis by (rule conjI [OF h conjI [OF r4 r5]])
qed

subsection \<open>The logs handler\<close>

text \<open>
  Claim C10. GET /api/users/:id/logs with an id that is not a well-formed identifier
  answers 500 "Error retrieving exercises": the lookup throws and the catch branch
  forwards the error. The exercise-creation endpoint answers 400 for the same id.
\<close>

theorem getLogs_malformed_id:
  "\<not> isValid L i \<Longrightarrow>
     getLogs L d i from to limit =
       [Next (generateError ''Error retrieving exercises'' 500),
        Json 500 (ErrorBody 500 ''Error retrieving exercises'')] \<and>
     postExercise L oid now d i du de da =
        ([Next (generateError ''Invalid or missing ID. The ID must be exactly 24 characters long.'' 400),
          Json 400 (ErrorBody 400 ''Invalid or missing ID. The ID must be exactly 24 characters long.'')],
         d)"
  by (simp add: getLogs_def User_findById_invalid postExercise_def next_err_400 next_err_500)

theorem getLogs_malformed_id_witness:
  "getLogs refLib exampleDb ''123'' Undefined Undefined Undefined =
     [Next (generateError ''Error retrieving exercises'' 500),
      Json 500 (ErrorBody 500 ''Error retrieving exercises'')] \<and>
   postExercise refLib ''e1'' exampleClock exampleDb ''123'' (JStr ''30'') (JStr ''run'') Undefined =
     ([Next (generateError ''Invalid or missing ID. The ID must be exactly 24 characters long.'' 400),
       Json 400 (ErrorBody 400 ''Invalid or missing ID. The ID must be exactly 24 characters long.'')],
      exampleDb)"
proof -
  have 1: "\<not> isValid refLib ''123''"
    by code_simp
  show ?thesis by (rule getLogs_malformed_id [OF 1])
qed

text \<open>
  Claim C3, as amended. GET /api/users/:id/logs for an existing user whose filtered
  exercise list is empty forwards a 404 (the dates message when \<open>from\<close> or \<open>to\<close> was
  supplied, the per-user message otherwise), and that 404 is the response the client
  receives. The handler then goes on to build a success body with an empty log and to
  call \<open>res.status(200).json\<close> with it; the call throws, the response being out already,
  so no 200 is sent, and the catch forwards a 500 that reaches no error handler. Both
  paths are entered on the same request.
\<close>

theorem getLogs_empty_both_paths:
  "User_findById L d i = Inr (Some u) \<and>
   Exercise_find L d (buildFilter L i from to) (effectiveLimit L limit) = Inr [] \<longrightarrow>
     getLogs L d i from to limit =
       [Next (generateError
          (if truthy from \<or> truthy to
           then ''No exercises found for the specified dates. Please adjust the date range and try again.''
           else ''Exercises not found for this user. Please check the exercises of another user.'')
          404),
        Json 404 (ErrorBody 404
          (if truthy from \<or> truthy to
           then ''No exercises found for the specified dates. Please adjust the date range and try again.''
           else ''Exercises not found for this user. Please check the exercises of another user.'')),
        Json 200 (LogBody \<lparr>j_username = username u, j_count = 0, j_id = i, j_log = []\<rparr>),
        Next (generateError ''Error retrieving exercises'' 500)] \<and>
     response (getLogs L d i from to limit) =
       Some (404, ErrorBody 404
          (if truthy from \<or> truthy to
           then ''No exercises found for the specified dates. Please adjust the date range and try again.''
           else ''Exercises not found for this user. Please check the exercises of another user.'')) \<and>
     refusedCalls (getLogs L d i from to limit) =
       [Json 200 (LogBody \<lparr>j_username = username u, j_count = 0, j_id = i, j_log = []\<rparr>)]"
proof (intro impI)
  assume a: "User_findById L d i = Inr (Some u) \<and>
   Exercise_find L d (buildFilter L i from to) (effectiveLimit L limit) = Inr []"
  define m where "m =
    (if truthy from \<or> truthy to
     then ''No exercises found for the specified dates. Please adjust the date range and try again.''
     else ''Exercises not found for this user. Please check the exercises of another user.'')"
  have g: "getLogs L d i from to limit =
      [Next (generateError m 404), Json 404 (ErrorBody 404 m),
       Json 200 (LogBody \<lparr>j_username = username u, j_count = 0, j_id = i, j_log = []\<rparr>),
       Next (generateError ''Error retrieving exercises'' 500)]"
    using a
    by (simp add: getLogs_def Let_def m_def resJson_def headersSent_def next_err_404
        next_err_again)
  show "getLogs L d i from to limit =
       [Next (generateError
          (if truthy from \<or> truthy to
           then ''No exercises found for the specified dates. Please adjust the date range and try again.''
           else ''Exercises not found for this user. Please check the exercises of another user.'')
          404),
        Json 404 (ErrorBody 404
          (if truthy from \<or> truthy to
           then ''No exercises found for the specified dates. Please adjust the date range and try again.''
           else ''Exercises not found for this user. Please check the exercises of another user.'')),
        Json 200 (LogBody \<lparr>j_username = username u, j_count = 0, j_id = i, j_log = []\<rparr>),
        Next (generateError ''Error retrieving exercises'' 500)] \<and>
     response (getLogs L d i from to limit) =
       Some (404, ErrorBody 404
          (if truthy from \<or> truthy to
           then ''No exercises found for the specified dates. Please adjust the date range and try again.''
           else ''Exercises not found for this user. Please check the exercises of another user.'')) \<and>
     refusedCalls (getLogs L d i from to limit) =
       [Json 200 (LogBody \<lparr>j_username = username u, j_count = 0, j_id = i, j_log = []\<rparr>)]"
    unfolding g m_def [symmetric] by (simp add: refusedCalls_def)
qed

theorem getLogs_empty_both_paths_witness:
  "(User_findById refLib exampleDb bobId = Inr (Some \<lparr>u_id = bobId, username = ''Bob''\<rparr>) \<and>
    Exercise_find refLib exampleDb (buildFilter refLib bobId Undefined Undefined)
      (effectiveLimit refLib Undefined) = Inr []) \<and>
   response (getLogs refLib exampleDb bobId Undefined Undefined Undefined) =
     Some (404, ErrorBody 404
       (if truthy Undefined \<or> truthy Undefined
        then ''No exercises found for the specified dates. Please adjust the date range and try again.''
        else ''Exercises not found for this user. Please check the exercises of another user.'')) \<and>
   refusedCalls (getLogs refLib exampleDb bobId Undefined Undefined Undefined) =
     [Json 200 (LogBody \<lparr>j_username = username \<lparr>u_id = bobId, username = ''Bob''\<rparr>, j_count = 0,
        j_id = bobId, j_log = []\<rparr>)] \<and>
   (User_findById refLib exampleDb amyId = Inr (Some \<lparr>u_id = amyId, username = ''Amy''\<rparr>) \<and>
    Exercise_find refLib exampleDb (buildFilter refLib amyId (JStr ''2025-01-01'') Undefined)
      (effectiveLimit refLib Undefined) = Inr []) \<and>
   response (getLogs refLib exampleDb amyId (JStr ''2025-01-01'') Undefined Undefined) =
     Some (404, ErrorBody 404
       (if truthy (JStr ''2025-01-01'') \<or> truthy Undefined
        then ''No exercises found for the specified dates. Please adjust the date range and try again.''
        else ''Exercises not found for this user. Please check the exercises of another user.''))"
proof -
  have 1: "User_findById refLib exampleDb bobId = Inr (Some \<lparr>u_id = bobId, username = ''Bob''\<rparr>) \<and>
      Exercise_find refLib exampleDb (buildFilter refLib bobId Undefined Undefined)
        (effectiveLimit refLib Undefined) = Inr []"
    by code_simp
  have 2: "User_findById refLib exampleDb amyId = Inr (Some \<lparr>u_id = amyId, username = ''Amy''\<rparr>) \<and>
      Exercise_find refLib exampleDb (buildFilter refLib amyId (JStr ''2025-01-01'') Undefined)
        (effectiveLimit refLib Undefined) = Inr []"
    by code_simp
  note r1 = getLogs_empty_both_paths [THEN mp, OF 1]
  note r2 = getLogs_empty_both_paths [THEN mp, OF 2]
  note a = r1 [THEN conjunct2, THEN conjunct1]
  note b = r1 [THEN conjunct2, THEN conjunct2]
  note c = r2 [THEN conjunct2, THEN conjunct1]
  show ?thesis by (rule conjI [OF 1 conjI [OF a conjI [OF b conjI [OF 2 c]]]])
qed

text \<open>
  Claim C3 as stated fails: for Bob, who has no exercise, the only response is the 404;
  the call \<open>res.status(200).json\<close> with the empty log is made after it and throws, so no
  200 success response is sent.
\<close>

theorem getLogs_empty_counterexample:
  "getLogs refLib exampleDb bobId Undefined Undefined Undefined =
     [Next (generateError
        ''Exercises not found for this user. Please check the exercises of another user.'' 404),
      Json 404 (ErrorBody 404
        ''Exercises not found for this user. Please check the exercises of another user.''),
      Json 200 (LogBody \<lparr>j_username = ''Bob'', j_count = 0, j_id = bobId, j_log = []\<rparr>),
      Next (generateError ''Error retrieving exercises'' 500)] \<and>
   response (getLogs refLib exampleDb bobId Undefined Undefined Undefined) =
     Some (404, ErrorBody 404
       ''Exercises not found for this user. Please check the exercises of another user.'') \<and>
   refusedCalls (getLogs refLib exampleDb bobId Undefined Undefined Undefined) =
     [Json 200 (LogBody \<lparr>j_username = ''Bob'', j_count = 0, j_id = bobId, j_log = []\<rparr>)]"
  by code_simp

lemma getLogs_LogBody:
  assumes "Json c (LogBody b) \<in> set (getLogs L d i from to limit)"
  shows "\<exists>u xs. User_findById L d i = Inr (Some u) \<and>
           Exercise_find L d (buildFilter L i from to) (effectiveLimit L limit) = Inr xs \<and>
           c = 200 \<and>
           b = \<lparr>j_username = username u, j_count = length xs, j_id = i, j_log = map logEntryOf xs\<rparr>"
  using assms
  by (auto simp: getLogs_def next_err_404 next_err_500 next_err_again resJson_def headersSent_def
      Let_def split: sum.splits option.splits if_splits)

lemma Exercise_find_Inr:
  "Exercise_find L d flt v = Inr xs \<Longrightarrow>
     \<exists>k lo hi n. castObjectId L (f_userId flt) = Some k \<and> castBound L (f_gte flt) = Some lo \<and>
        castBound L (f_lte flt) = Some hi \<and> limitNumber L v = Some n \<and> fault d = None \<and>
        xs = applyLimit n (filter (matchesFilter k lo hi) (exercises d))"
  by (auto simp: Exercise_find_def split: option.splits)

lemma applyLimit_length: "n \<noteq> 0 \<Longrightarrow> length (applyLimit n xs) \<le> nat \<bar>n\<bar>"
  by (simp add: applyLimit_def)

lemma applyLimit_set: "set (applyLimit n xs) \<subseteq> set xs"
  by (auto simp: applyLimit_def dest: in_set_takeD)

lemma effectiveLimit_falsy: "\<not> truthy v \<Longrightarrow> limitNumber L (effectiveLimit L v) = Some 20"
  by (simp add: effectiveLimit_def limitNumber_def)

lemma effectiveLimit_zero:
  "truthy v \<Longrightarrow> looseEqZero L v \<Longrightarrow> limitNumber L (effectiveLimit L v) = Some 1"
  by (simp add: effectiveLimit_def limitNumber_def)

text \<open>
  Claim C9, as amended. In a 200 response of GET /api/users/:id/logs the count is the
  number of entries of the log; that number does not exceed the absolute value of the
  effective limit when that is not 0 (20 when no limit is given, 1 when it is given as
  0, and a negative limit caps at its absolute value); every entry has the three fields
  description, duration and date of a stored exercise, the date rendered as
  \<open>YYYY-MM-DD\<close>.
\<close>

theorem getLogs_count_and_entries:
  "Json c (LogBody b) \<in> set (getLogs L d i from to limit) \<longrightarrow>
     c = 200 \<and> j_count b = length (j_log b) \<and>
     (\<exists>n. limitNumber L (effectiveLimit L limit) = Some n \<and>
          (n \<noteq> 0 \<longrightarrow> j_count b \<le> nat \<bar>n\<bar>)) \<and>
     (\<not> truthy limit \<longrightarrow> j_count b \<le> 20) \<and>
     (truthy limit \<and> looseEqZero L limit \<longrightarrow> j_count b \<le> 1) \<and>
     (\<forall>e\<in>set (j_log b). \<exists>x\<in>set (exercises d).
         e = \<lparr>l_description = e_description x, l_duration = e_duration x,
              l_date = formatDate (Some (e_date x))\<rparr> \<and>
         (fourDigitDate (e_date x) \<longrightarrow>
            momentStrictYMD (l_date e) = Some ((e_date x)\<lparr>msec := 0\<rparr>)))"
proof (intro impI)
  assume "Json c (LogBody b) \<in> set (getLogs L d i from to limit)"
  from getLogs_LogBody [OF this] obtain u where
    "\<exists>xs. User_findById L d i = Inr (Some u) \<and>
        Exercise_find L d (buildFilter L i from to) (effectiveLimit L limit) = Inr xs \<and>
        c = 200 \<and>
        b = \<lparr>j_username = username u, j_count = length xs, j_id = i, j_log = map logEntryOf xs\<rparr>" ..
  then obtain xs where g:
    "User_findById L d i = Inr (Some u) \<and>
     Exercise_find L d (buildFilter L i from to) (effectiveLimit L limit) = Inr xs \<and>
     c = 200 \<and>
     b = \<lparr>j_username = username u, j_count = length xs, j_id = i, j_log = map logEntryOf xs\<rparr>" ..
  from g have
    f: "Exercise_find L d (buildFilter L i from to) (effectiveLimit L limit) = Inr xs" and
    c: "c = 200" and
    b: "b = \<lparr>j_username = username u, j_count = length xs, j_id = i, j_log = map logEntryOf xs\<rparr>"
    by simp_all
  from Exercise_find_Inr [OF f] obtain k lo hi n where h:
    "castObjectId L (f_userId (buildFilter L i from to)) = Some k \<and>
     castBound L (f_gte (buildFilter L i from to)) = Some lo \<and>
     castBound L (f_lte (buildFilter L i from to)) = Some hi \<and>
     limitNumber L (effectiveLimit L limit) = Some n \<and> fault d = None \<and>
     xs = applyLimit n (filter (matchesFilter k lo hi) (exercises d))"
    by (elim exE)
  from h have
    n: "limitNumber L (effectiveLimit L limit) = Some n" and
    xs: "xs = applyLimit n (filter (matchesFilter k lo hi) (exercises d))"
    by simp_all
  have len: "n \<noteq> 0 \<longrightarrow> length xs \<le> nat \<bar>n\<bar>"
    unfolding xs by (simp add: applyLimit_length)
  have sub: "set xs \<subseteq> set (exercises d)"
    unfolding xs using applyLimit_set [of n "filter (matchesFilter k lo hi) (exercises d)"] by auto
  have 1: "j_count b = length (j_log b)" by (simp add: b)
  have 2: "\<exists>n. limitNumber L (effectiveLimit L limit) = Some n \<and>
          (n \<noteq> 0 \<longrightarrow> j_count b \<le> nat \<bar>n\<bar>)"
    using n len by (simp add: b)
  have 3: "\<not> truthy limit \<longrightarrow> j_count b \<le> 20"
    using n len effectiveLimit_falsy [of limit L] by (auto simp: b)
  have 4: "truthy limit \<and> looseEqZero L limit \<longrightarrow> j_count b \<le> 1"
    using n len effectiveLimit_zero [of limit L] by (auto simp: b)
  have 5: "\<forall>e\<in>set (j_log b). \<exists>x\<in>set (exercises d).
         e = \<lparr>l_description = e_description x, l_duration = e_duration x,
              l_date = formatDate (Some (e_date x))\<rparr> \<and>
         (fourDigitDate (e_date x) \<longrightarrow>
            momentStrictYMD (l_date e) = Some ((e_date x)\<lparr>msec := 0\<rparr>))"
  proof
    fix e assume "e \<in> set (j_log b)"
    then obtain x where x: "x \<in> set xs" and e: "e = logEntryOf x"
      by (auto simp: b)
    from x sub have "x \<in> set (exercises d)" by blast
    moreover have "e = \<lparr>l_description = e_description x, l_duration = e_duration x,
              l_date = formatDate (Some (e_date x))\<rparr>"
      by (simp add: e logEntryOf_def)
    moreover have "fourDigitDate (e_date x) \<longrightarrow>
            momentStrictYMD (l_date e) = Some ((e_date x)\<lparr>msec := 0\<rparr>)"
      by (simp add: e logEntryOf_def formatDate_roundtrip)
    ultimately show "\<exists>x\<in>set (exercises d).
         e = \<lparr>l_description = e_description x, l_duration = e_duration x,
              l_date = formatDate (Some (e_date x))\<rparr> \<and>
         (fourDigitDate (e_date x) \<longrightarrow>
            momentStrictYMD (l_date e) = Some ((e_date x)\<lparr>msec := 0\<rparr>))"
      by blast
  qed
  from c 1 2 3 4 5 show "c = 200 \<and> j_count b = length (j_log b) \<and>
     (\<exists>n. limitNumber L (effectiveLimit L limit) = Some n \<and>
          (n \<noteq> 0 \<longrightarrow> j_count b \<le> nat \<bar>n\<bar>)) \<and>
     (\<not> truthy limit \<longrightarrow> j_count b \<le> 20) \<and>
     (truthy limit \<and> looseEqZero L limit \<longrightarrow> j_count b \<le> 1) \<and>
     (\<forall>e\<in>set (j_log b). \<exists>x\<in>set (exercises d).
         e = \<lparr>l_description = e_description x, l_duration = e_duration x,
              l_date = formatDate (Some (e_date x))\<rparr> \<and>
         (fourDigitDate (e_date x) \<longrightarrow>
            momentStrictYMD (l_date e) = Some ((e_date x)\<lparr>msec := 0\<rparr>)))"
    by (intro conjI)
qed

theorem getLogs_count_and_entries_witness:
  "Json 200 (LogBody \<lparr>j_username = ''Amy'', j_count = 2, j_id = amyId,
      j_log = [\<lparr>l_description = ''run'', l_duration = 30, l_date = ''2024-01-15''\<rparr>,
               \<lparr>l_description = ''swim'', l_duration = 45, l_date = ''2024-03-02''\<rparr>]\<rparr>)
     \<in> set (getLogs refLib exampleDb amyId Undefined Undefined Undefined) \<and>
   j_count \<lparr>j_username = ''Amy'', j_count = 2, j_id = amyId,
      j_log = [\<lparr>l_description = ''run'', l_duration = 30, l_date = ''2024-01-15''\<rparr>,
               \<lparr>l_description = ''swim'', l_duration = 45, l_date = ''2024-03-02''\<rparr>]\<rparr> =
   length (j_log \<lparr>j_username = ''Amy'', j_count = 2, j_id = amyId,
      j_log = [\<lparr>l_description = ''run'', l_duration = 30, l_date = ''2024-01-15''\<rparr>,
               \<lparr>l_description = ''swim'', l_duration = 45, l_date = ''2024-03-02''\<rparr>]\<rparr>) \<and>
   j_count \<lparr>j_username = ''Amy'', j_count = 2, j_id = amyId,
      j_log = [\<lparr>l_description = ''run'', l_duration = 30, l_date = ''2024-01-15''\<rparr>,
               \<lparr>l_description = ''swim'', l_duration = 45, l_date = ''2024-03-02''\<rparr>]\<rparr> \<le> 20"
proof -
  have h: "Json 200 (LogBody \<lparr>j_username = ''Amy'', j_count = 2, j_id = amyId,
      j_log = [\<lparr>l_description = ''run'', l_duration = 30, l_date = ''2024-01-15''\<rparr>,
               \<lparr>l_description = ''swim'', l_duration = 45, l_date = ''2024-03-02''\<rparr>]\<rparr>)
     \<in> set (getLogs refLib exampleDb amyId Undefined Undefined Undefined)"
    by code_simp
  have t: "\<not> truthy Undefined"
    by simp
  note r = getLogs_count_and_entries [THEN mp, OF h]
  note r2 = r [THEN conjunct2, THEN conjunct1]
  note r4 = r [THEN conjunct2, THEN conjunct2, THEN conjunct2, THEN conjunct1, THEN mp, OF t]
  show ?thesis by (rule conjI [OF h conjI [OF r2 r4]])
qed

text \<open>
  Claim C9 as stated fails: with \<open>limit=-1\<close> the effective limit is -1, and the 200
  response has one entry, which is more.
\<close>

theorem getLogs_count_counterexample:
  "getLogs refLib exampleDb amyId Undefined Undefined (JStr ''-1'') =
     [Json 200 (LogBody \<lparr>j_username = ''Amy'', j_count = 1, j_id = amyId,
        j_log = [\<lparr>l_description = ''run'', l_duration = 30, l_date = ''2024-01-15''\<rparr>]\<rparr>)] \<and>
   effectiveLimit refLib (JStr ''-1'') = JStr ''-1'' \<and>
   limitNumber refLib (JStr ''-1'') = Some (- 1) \<and>
   \<not> int 1 \<le> - 1"
  by code_simp

lemma truthy_iff: "truthy v = (v \<noteq> Undefined \<and> v \<noteq> JStr [] \<and> v \<noteq> JNum 0)"
  by (cases v) auto

lemma getLogs_first_match:
  assumes u: "User_findById L d i = Inr (Some u)"
    and k: "castObjectId L i = Some k"
    and lo: "castBound L (f_gte (buildFilter L i from to)) = Some lo"
    and hi: "castBound L (f_lte (buildFilter L i from to)) = Some hi"
    and t: "truthy limit" and z: "looseEqZero L limit"
    and m: "filter (matchesFilter k lo hi) (exercises d) = x # rest"
  shows "getLogs L d i from to limit =
     [Json 200 (LogBody \<lparr>j_username = username u, j_count = 1, j_id = i, j_log = [logEntryOf x]\<rparr>)]"
proof -
  from u k have fl: "fault d = None"
    by (auto simp: User_findById_def split: option.splits)
  have uid: "f_userId (buildFilter L i from to) = i"
    by (simp add: buildFilter_def)
  from t z have "limitNumber L (effectiveLimit L limit) = Some 1"
    by (rule effectiveLimit_zero)
  with k lo hi fl m uid
  have "Exercise_find L d (buildFilter L i from to) (effectiveLimit L limit) = Inr [x]"
    by (simp add: Exercise_find_def applyLimit_def)
  with u show ?thesis
    by (simp add: getLogs_def resJson_nil Let_def)
qed

text \<open>
  Claim C2, as amended. The effective limit is 20 when \<open>limit\<close> is absent or empty
  (falsy), 1 when it is non-empty and compares equal to 0, and the supplied value
  otherwise; a query with \<open>limit=0\<close> whose filter (the user and the date range) matches
  at least one exercise gets exactly one log entry, the first match.
\<close>

theorem effectiveLimit_cases:
  "(\<not> truthy v \<longrightarrow> effectiveLimit L v = JNum 20) \<and>
   (truthy v \<and> looseEqZero L v \<longrightarrow> effectiveLimit L v = JNum 1) \<and>
   (truthy v \<and> \<not> looseEqZero L v \<longrightarrow> effectiveLimit L v = v) \<and>
   (truthy v = (v \<noteq> Undefined \<and> v \<noteq> JStr [] \<and> v \<noteq> JNum 0)) \<and>
   (truthy limit \<and> looseEqZero L limit \<and> User_findById L d i = Inr (Some u) \<and>
    castObjectId L i = Some k \<and>
    castBound L (f_gte (buildFilter L i from to)) = Some lo \<and>
    castBound L (f_lte (buildFilter L i from to)) = Some hi \<and>
    filter (matchesFilter k lo hi) (exercises d) = x # rest \<longrightarrow>
      getLogs L d i from to limit =
        [Json 200 (LogBody \<lparr>j_username = username u, j_count = 1, j_id = i,
           j_log = [logEntryOf x]\<rparr>)])"
proof (intro conjI impI)
  show "truthy v = (v \<noteq> Undefined \<and> v \<noteq> JStr [] \<and> v \<noteq> JNum 0)"
    by (rule truthy_iff)
next
  assume a: "truthy limit \<and> looseEqZero L limit \<and> User_findById L d i = Inr (Some u) \<and>
    castObjectId L i = Some k \<and>
    castBound L (f_gte (buildFilter L i from to)) = Some lo \<and>
    castBound L (f_lte (buildFilter L i from to)) = Some hi \<and>
    filter (matchesFilter k lo hi) (exercises d) = x # rest"
  then have a1: "truthy limit" and a2: "looseEqZero L limit"
    and a3: "User_findById L d i = Inr (Some u)" and a4: "castObjectId L i = Some k"
    and a5: "castBound L (f_gte (buildFilter L i from to)) = Some lo"
    and a6: "castBound L (f_lte (buildFilter L i from to)) = Some hi"
    and a7: "filter (matchesFilter k lo hi) (exercises d) = x # rest"
    by simp_all
  show "getLogs L d i from to limit =
        [Json 200 (LogBody \<lparr>j_username = username u, j_count = 1, j_id = i,
           j_log = [logEntryOf x]\<rparr>)]"
    by (rule getLogs_first_match [OF a3 a4 a5 a6 a1 a2 a7])
qed (simp_all add: effectiveLimit_def)

theorem effectiveLimit_cases_witness:
  "effectiveLimit refLib Undefined = JNum 20 \<and>
   effectiveLimit refLib (JStr []) = JNum 20 \<and>
   effectiveLimit refLib (JStr ''0'') = JNum 1 \<and>
   effectiveLimit refLib (JStr ''5'') = JStr ''5'' \<and>
   getLogs refLib exampleDb amyId Undefined Undefined (JStr ''0'') =
     [Json 200 (LogBody \<lparr>j_username = username \<lparr>u_id = amyId, username = ''Amy''\<rparr>, j_count = 1,
        j_id = amyId,
        j_log = [logEntryOf \<lparr>e_id = ''65f0a1b2c3d4e5f6a7b8c9d0'', e_userId = amyId,
          e_duration = 30, e_description = ''run'',
          e_date = \<lparr>year = 2024, month = 1, day = 15, msec = 0\<rparr>\<rparr>]\<rparr>)]"
proof -
  have 1: "\<not> truthy Undefined" and 2: "\<not> truthy (JStr [])"
    by simp_all
  have 3: "truthy (JStr ''0'') \<and> looseEqZero refLib (JStr ''0'')"
    by code_simp
  have 4: "truthy (JStr ''5'') \<and> \<not> looseEqZero refLib (JStr ''5'')"
    by code_simp
  have 5: "truthy (JStr ''0'') \<and> looseEqZero refLib (JStr ''0'') \<and>
      User_findById refLib exampleDb amyId = Inr (Some \<lparr>u_id = amyId, username = ''Amy''\<rparr>) \<and>
      castObjectId refLib amyId = Some amyId \<and>
      castBound refLib (f_gte (buildFilter refLib amyId Undefined Undefined)) = Some None \<and>
      castBound refLib (f_lte (buildFilter refLib amyId Undefined Undefined)) = Some None \<and>
      filter (matchesFilter amyId None None) (exercises exampleDb) =
        \<lparr>e_id = ''65f0a1b2c3d4e5f6a7b8c9d0'', e_userId = amyId, e_duration = 30,
          e_description = ''run'', e_date = \<lparr>year = 2024, month = 1, day = 15, msec = 0\<rparr>\<rparr> #
        [\<lparr>e_id = ''65f0a1b2c3d4e5f6a7b8c9d1'', e_userId = amyId, e_duration = 45,
          e_description = ''swim'', e_date = \<lparr>year = 2024, month = 3, day = 2, msec = 0\<rparr>\<rparr>]"
    by code_simp
  note r1 = effectiveLimit_cases [THEN conjunct1, THEN mp, OF 1]
  note r2 = effectiveLimit_cases [THEN conjunct1, THEN mp, OF 2]
  note r3 = effectiveLimit_cases [THEN conjunct2, THEN conjunct1, THEN mp, OF 3]
  note r4 = effectiveLimit_cases [THEN conjunct2, THEN conjunct2, THEN conjunct1, THEN mp, OF 4]
  note r5 = effectiveLimit_cases [THEN conjunct2, THEN conjunct2, THEN conjunct2, THEN conjunct2,
      THEN mp, OF 5]
  show ?thesis by (rule conjI [OF r1 conjI [OF r2 conjI [OF r3 conjI [OF r4 r5]]]])
qed

text \<open>
  Claim C2 as stated fails. With \<open>limit\<close> supplied empty the limit is 20, neither the
  supplied value nor 1; and a query with \<open>limit=0\<close> and a \<open>from\<close> date after all of the
  user's exercises gets no log entry at all, although the user has exercises.
\<close>

theorem effectiveLimit_counterexample:
  "effectiveLimit refLib (JStr []) = JNum 20 \<and>
   specLimit refLib (JStr []) \<noteq> JNum 20 \<and>
   (\<exists>x\<in>set (exercises exampleDb). e_userId x = amyId) \<and>
   response (getLogs refLib exampleDb amyId (JStr ''2025-01-01'') Undefined (JStr ''0'')) =
     Some (404, ErrorBody 404
       ''No exercises found for the specified dates. Please adjust the date range and try again.'')"
  by code_simp

subsection \<open>The fallback route\<close>

text \<open>
  Claim C8, as amended. A request that no route matches is answered 400 with the
  id-format message when its original URL, the path together with the query string, is
  exactly \<open>/api/users//exercises\<close>, and 404 with a message naming that URL otherwise.
\<close>

theorem fallback_cases:
  "(url = ''/api/users//exercises'' \<longrightarrow>
      fallback url =
        [Next (generateError
           ''Invalid ID format. Ensure the ID is exactly 24 characters long and corresponds to an existing user.''
           400),
         Json 400 (ErrorBody 400
           ''Invalid ID format. Ensure the ID is exactly 24 characters long and corresponds to an existing user.'')]) \<and>
   (url \<noteq> ''/api/users//exercises'' \<longrightarrow>
      fallback url =
        [Next (generateError
           (''The requested path '' @ [CHR 0x27] @ url @ [CHR 0x27] @ '' was not found on this server.'')
           404),
         Json 404 (ErrorBody 404
           (''The requested path '' @ [CHR 0x27] @ url @ [CHR 0x27] @ '' was not found on this server.''))])"
  by (simp add: fallback_def next_err_400 next_err_404)

theorem fallback_cases_witness:
  "fallback ''/api/users//exercises'' =
     [Next (generateError
        ''Invalid ID format. Ensure the ID is exactly 24 characters long and corresponds to an existing user.''
        400),
      Json 400 (ErrorBody 400
        ''Invalid ID format. Ensure the ID is exactly 24 characters long and corresponds to an existing user.'')] \<and>
   fallback ''/api/users//logs'' =
     [Next (generateError
        (''The requested path '' @ [CHR 0x27] @ ''/api/users//logs'' @ [CHR 0x27] @
         '' was not found on this server.'') 404),
      Json 404 (ErrorBody 404
        (''The requested path '' @ [CHR 0x27] @ ''/api/users//logs'' @ [CHR 0x27] @
         '' was not found on this server.''))]"
proof -
  have 1: "''/api/users//exercises'' = ''/api/users//exercises''"
    by (rule refl)
  have 2: "''/api/users//logs'' \<noteq> ''/api/users//exercises''"
    by simp
  note r1 = fallback_cases [THEN conjunct1, THEN mp, OF 1]
  note r2 = fallback_cases [THEN conjunct2, THEN mp, OF 2]
  show ?thesis by (rule conjI [OF r1 r2])
qed

text \<open>
  Claim C8 as stated fails: the path of the request \<open>/api/users//exercises?x=1\<close> is exactly
  \<open>/api/users//exercises\<close>, and the answer is 404.
\<close>

theorem fallback_counterexample:
  "pathOf ''/api/users//exercises?x=1'' = ''/api/users//exercises'' \<and>
   response (fallback ''/api/users//exercises?x=1'') =
     Some (404, ErrorBody 404
       ''The requested path '/api/users//exercises?x=1' was not found on this server.'')"
  by code_simp

end
